theory Spec2Isabelle
  imports Complex_Main
begin

section \<open>Values, errors and configuration\<close>

text \<open>
  The service is an Express application in two variants: \<^verbatim>\<open>src/index.js\<close>
  (version 1.0.0, check \<open>\<rightarrow>\<close> handoff \<open>\<rightarrow>\<close> ledger update) and
  \<^verbatim>\<open>src/unnamed/part_000\<close> (version 2.0.0, join \<open>\<rightarrow>\<close> check \<open>\<rightarrow>\<close>
  revoke \<open>\<rightarrow>\<close> handoff \<open>\<rightarrow>\<close> leave). Both talk to the messaging platform
  through a client library. The client is a parameter of the model: every
  one of its operations may answer or reject, and may change the state of the
  platform in any way.

  JavaScript values that cross the HTTP boundary (request fields, response
  bodies) are values of \<open>jsval\<close>; \<open>JUndefined\<close> is the value of a field
  that is absent.
\<close>

datatype jsval =
    JUndefined
  | JNull
  | JBool bool
  | JNum rat
  | JStr string
  | JArr "jsval list"
  | JObj "(string \<times> jsval) list"

text \<open>The test \<^verbatim>\<open>!x\<close> of the handlers is \<open>\<not> truthy x\<close>.\<close>

fun truthy :: "jsval \<Rightarrow> bool" where
  "truthy JUndefined = False"
| "truthy JNull = False"
| "truthy (JBool b) = b"
| "truthy (JNum n) = (n \<noteq> 0)"
| "truthy (JStr s) = (s \<noteq> [])"
| "truthy (JArr xs) = True"
| "truthy (JObj kvs) = True"

text \<open>
  A thrown value: \<^verbatim>\<open>error.message\<close>, \<^verbatim>\<open>error.stack\<close>, and
  \<^verbatim>\<open>error.errorMessage\<close>, which only the platform's RPC errors carry.
\<close>

record js_error =
  message :: string
  errorMessage :: "string option"
  stack :: string

definition TypeError :: "string \<Rightarrow> js_error" where
  "TypeError msg = \<lparr>message = msg, errorMessage = None, stack = ''TypeError: '' @ msg\<rparr>"

text \<open>
  The module constants read from the environment (lines 16-23 of both files).
  \<open>API_ID\<close> is the result of \<^verbatim>\<open>parseInt\<close>, \<open>None\<close> standing for NaN;
  the other fields are \<open>None\<close> when the variable is unset.
\<close>

record config =
  ADMIN_SESSION_STRING :: "string option"
  ADMIN_2FA_PASSWORD :: "string option"
  API_ID :: "int option"
  API_HASH :: "string option"
  env_API_SECRET :: "string option"

text \<open>\<^verbatim>\<open>process.env.API_SECRET || 'change-me-in-production'\<close>\<close>

definition API_SECRET :: "config \<Rightarrow> string" where
  "API_SECRET cfg =
     (case env_API_SECRET cfg of
        None \<Rightarrow> ''change-me-in-production''
      | Some s \<Rightarrow> if s = [] then ''change-me-in-production'' else s)"

subsection \<open>Strings\<close>

text \<open>
  \<^verbatim>\<open>x.startsWith('@') ? x.slice(1) : x\<close>. The handlers pass the request field
  as it came: on anything but a string \<^verbatim>\<open>startsWith\<close> is not a function
  and the call throws.
\<close>

fun normalizeUsername :: "jsval \<Rightarrow> js_error + string" where
  "normalizeUsername (JStr s) = Inr (case s of [] \<Rightarrow> s | c # rest \<Rightarrow> if c = CHR ''@'' then rest else s)"
| "normalizeUsername v = Inl (TypeError ''startsWith is not a function'')"

text \<open>\<^verbatim>\<open>s.trim()\<close>, on the white space of ASCII.\<close>

definition is_space :: "char \<Rightarrow> bool" where
  "is_space c \<longleftrightarrow> c \<in> set [CHR '' '', CHR 0x09, CHR 0x0A, CHR 0x0B, CHR 0x0C, CHR 0x0D]"

definition trim :: "string \<Rightarrow> string" where
  "trim s = rev (dropWhile is_space (rev (dropWhile is_space s)))"

text \<open>Decimal rendering of an identifier, \<^verbatim>\<open>id.toString()\<close>.\<close>

definition digit_char :: "nat \<Rightarrow> char" where
  "digit_char d = char_of (48 + d)"

fun digits :: "nat \<Rightarrow> string" where
  "digits n = (if n < 10 then [digit_char n] else digits (n div 10) @ [digit_char (n mod 10)])"

definition toString :: "int \<Rightarrow> string" where
  "toString i = (if i < 0 then CHR ''-'' # digits (nat (- i)) else digits (nat i))"

section \<open>The platform client\<close>

text \<open>
  An entity as \<^verbatim>\<open>client.getEntity\<close> resolves it; the code reads
  \<^verbatim>\<open>channel.id?.toString()\<close> and \<^verbatim>\<open>channel.title\<close>.
\<close>

record entity =
  ent_id :: "int option"
  ent_title :: "string option"

record user =
  user_id :: int

text \<open>
  The concrete classes of a participant record. Only the class and
  \<^verbatim>\<open>userId\<close> are read; the banned and left records carry a peer and no
  \<^verbatim>\<open>userId\<close>.
\<close>

datatype participant =
    ChannelParticipant int
  | ChannelParticipantSelf int
  | ChannelParticipantCreator int
  | ChannelParticipantAdmin int
  | ChannelParticipantBanned
  | ChannelParticipantLeft

fun userId :: "participant \<Rightarrow> int option" where
  "userId (ChannelParticipant u) = Some u"
| "userId (ChannelParticipantSelf u) = Some u"
| "userId (ChannelParticipantCreator u) = Some u"
| "userId (ChannelParticipantAdmin u) = Some u"
| "userId ChannelParticipantBanned = None"
| "userId ChannelParticipantLeft = None"

text \<open>\<^verbatim>\<open>participant instanceof Api.ChannelParticipantCreator\<close>\<close>

fun instanceof_Creator :: "participant \<Rightarrow> bool" where
  "instanceof_Creator (ChannelParticipantCreator u) = True"
| "instanceof_Creator p = False"

fun instanceof_Admin :: "participant \<Rightarrow> bool" where
  "instanceof_Admin (ChannelParticipantAdmin u) = True"
| "instanceof_Admin p = False"

text \<open>The answer to \<^verbatim>\<open>channels.GetParticipants\<close>; only one of its two classes has a list.\<close>

datatype participants_reply =
    ChannelParticipants "participant list"
  | ChannelParticipantsNotModified

record ChatAdminRights =
  changeInfo :: bool
  postMessages :: bool
  editMessages :: bool
  deleteMessages :: bool
  banUsers :: bool
  inviteUsers :: bool
  pinMessages :: bool
  addAdmins :: bool
  anonymous :: bool
  manageCall :: bool
  other :: bool
  manageTopics :: bool

datatype password_srp = PasswordSrp nat

datatype password_check = PasswordCheck nat

text \<open>
  The remote calls, as the log of a run records them, with the arguments that
  vary. \<open>GetParticipants\<close> is always sent with the filter
  \<^verbatim>\<open>ChannelParticipantsAdmins\<close>, offset 0, limit 200 and hash 0.
\<close>

datatype call =
    Connect
  | Disconnect
  | GetEntity string
  | GetMe
  | GetParticipant entity user
  | JoinChannel entity
  | GetParticipants entity
  | EditAdmin entity "int option" ChatAdminRights string
  | LeaveChannel entity
  | GetPassword
  | EditCreator entity entity password_check

text \<open>
  The client library. \<open>'w\<close> is the state of everything outside the service:
  the platform and the ledger. The constructors and \<^verbatim>\<open>computeCheck\<close> are
  local; the other operations are remote calls. \<open>api_constructor_name\<close> is
  \<^verbatim>\<open>participant.constructor.name\<close>: the name that the library gives the
  class of a record, which need not tell the classes apart.
\<close>

record 'w telegram =
  api_newTelegramClient :: "string \<Rightarrow> int option \<Rightarrow> string option \<Rightarrow> js_error + unit"
  api_connect :: "'w \<Rightarrow> (js_error + unit) \<times> 'w"
  api_disconnect :: "'w \<Rightarrow> (js_error + unit) \<times> 'w"
  api_getEntity :: "string \<Rightarrow> 'w \<Rightarrow> (js_error + entity) \<times> 'w"
  api_getMe :: "'w \<Rightarrow> (js_error + user) \<times> 'w"
  api_GetParticipant :: "entity \<Rightarrow> user \<Rightarrow> 'w \<Rightarrow> (js_error + participant) \<times> 'w"
  api_JoinChannel :: "entity \<Rightarrow> 'w \<Rightarrow> (js_error + unit) \<times> 'w"
  api_GetParticipants :: "entity \<Rightarrow> 'w \<Rightarrow> (js_error + participants_reply) \<times> 'w"
  api_EditAdmin :: "entity \<Rightarrow> int option \<Rightarrow> ChatAdminRights \<Rightarrow> string \<Rightarrow> 'w \<Rightarrow> (js_error + unit) \<times> 'w"
  api_LeaveChannel :: "entity \<Rightarrow> 'w \<Rightarrow> (js_error + unit) \<times> 'w"
  api_GetPassword :: "'w \<Rightarrow> (js_error + password_srp) \<times> 'w"
  api_computeCheck :: "password_srp \<Rightarrow> string option \<Rightarrow> 'w \<Rightarrow> (js_error + password_check) \<times> 'w"
  api_EditCreator :: "entity \<Rightarrow> entity \<Rightarrow> password_check \<Rightarrow> 'w \<Rightarrow> (js_error + unit) \<times> 'w"
  api_constructor_name :: "participant \<Rightarrow> string"

section \<open>Asynchronous code as state passing\<close>

text \<open>
  A run threads the outside world and the log of the remote calls it has
  made, each with whether it returned (\<open>True\<close>) or rejected. An
  \<^verbatim>\<open>async\<close> function is a function from that state to its outcome,
  \<open>Inl\<close> for a thrown error, and the new state.
\<close>

type_synonym event = "call \<times> bool"

type_synonym 'w state = "'w \<times> event list"

type_synonym ('w, 'a) prog = "'w state \<Rightarrow> (js_error + 'a) \<times> 'w state"

definition ret :: "'a \<Rightarrow> ('w, 'a) prog" where
  "ret x s = (Inr x, s)"

definition throw :: "js_error \<Rightarrow> ('w, 'a) prog" where
  "throw e s = (Inl e, s)"

definition lift :: "js_error + 'a \<Rightarrow> ('w, 'a) prog" where
  "lift r s = (r, s)"

text \<open>\<^verbatim>\<open>const x = await m; k(x)\<close>\<close>

definition await :: "('w, 'a) prog \<Rightarrow> ('a \<Rightarrow> ('w, 'b) prog) \<Rightarrow> ('w, 'b) prog" where
  "await m k s = (case m s of (Inl e, s') \<Rightarrow> (Inl e, s') | (Inr x, s') \<Rightarrow> k x s')"

text \<open>\<^verbatim>\<open>try { m } catch (error) { h(error) }\<close>\<close>

definition try_catch :: "('w, 'a) prog \<Rightarrow> (js_error \<Rightarrow> ('w, 'a) prog) \<Rightarrow> ('w, 'a) prog" where
  "try_catch m h s = (case m s of (Inl e, s') \<Rightarrow> h e s' | (Inr x, s') \<Rightarrow> (Inr x, s'))"

text \<open>
  \<^verbatim>\<open>try { m } finally { fin }\<close>: the finaliser runs on every exit of \<open>m\<close>,
  and an error thrown by the finaliser replaces the outcome of \<open>m\<close>.
\<close>

definition try_finally :: "('w, 'a) prog \<Rightarrow> ('w, unit) prog \<Rightarrow> ('w, 'a) prog" where
  "try_finally m fin s =
     (case m s of (r, s') \<Rightarrow>
        (case fin s' of (Inl e, s'') \<Rightarrow> (Inl e, s'') | (Inr u, s'') \<Rightarrow> (r, s'')))"

definition returned :: "js_error + 'a \<Rightarrow> bool" where
  "returned r = (case r of Inl e \<Rightarrow> False | Inr x \<Rightarrow> True)"

text \<open>A remote call: the platform answers and the call is logged with its outcome.\<close>

definition remote :: "call \<Rightarrow> ('w \<Rightarrow> (js_error + 'a) \<times> 'w) \<Rightarrow> ('w, 'a) prog" where
  "remote c f s = (case f (fst s) of (r, w') \<Rightarrow> (r, (w', snd s @ [(c, returned r)])))"

text \<open>A local operation of the library: it is not logged.\<close>

definition local_op :: "('w \<Rightarrow> (js_error + 'a) \<times> 'w) \<Rightarrow> ('w, 'a) prog" where
  "local_op f s = (case f (fst s) of (r, w') \<Rightarrow> (r, (w', snd s)))"

section \<open>The steps\<close>

text \<open>
  Every step starts with
  \<^verbatim>\<open>new StringSession(ADMIN_SESSION_STRING.trim())\<close> and
  \<^verbatim>\<open>client = new TelegramClient(session, API_ID, API_HASH, ...)\<close> inside its
  \<^verbatim>\<open>try\<close>. If either throws, \<^verbatim>\<open>client\<close> is still \<^verbatim>\<open>null\<close> and the
  \<^verbatim>\<open>finally\<close> block does not disconnect. The \<^verbatim>\<open>catch\<close> block of every
  step logs and rethrows, so it does not appear in the model.
\<close>

definition new_client :: "'w telegram \<Rightarrow> config \<Rightarrow> ('w, unit) prog" where
  "new_client api cfg =
     (case ADMIN_SESSION_STRING cfg of
        None \<Rightarrow> throw (TypeError ''Cannot read properties of undefined (reading trim)'')
      | Some s \<Rightarrow> lift (api_newTelegramClient api (trim s) (API_ID cfg) (API_HASH cfg)))"

text \<open>\<^verbatim>\<open>finally { if (client) await client.disconnect() }\<close>, once the client exists.\<close>

definition with_client :: "'w telegram \<Rightarrow> config \<Rightarrow> ('w, 'a) prog \<Rightarrow> ('w, 'a) prog" where
  "with_client api cfg work =
     await (new_client api cfg) (\<lambda>client.
       try_finally work (remote Disconnect (api_disconnect api)))"

subsection \<open>checkChannelOwnership (the same text in both files)\<close>

record ownership =
  isOwner :: bool
  currentRole :: string
  participantType :: string
  channelId :: "string option"
  channelTitle :: "string option"

definition checkChannelOwnership :: "'w telegram \<Rightarrow> config \<Rightarrow> jsval \<Rightarrow> ('w, ownership) prog" where
  "checkChannelOwnership api cfg channelUsername =
     with_client api cfg
      (await (remote Connect (api_connect api)) (\<lambda>connected.
       await (lift (normalizeUsername channelUsername)) (\<lambda>normalizedUsername.
       await (remote (GetEntity normalizedUsername) (api_getEntity api normalizedUsername)) (\<lambda>channel.
       await (remote GetMe (api_getMe api)) (\<lambda>me.
       await (remote (GetParticipant channel me) (api_GetParticipant api channel me)) (\<lambda>participant.
         let isCreator = instanceof_Creator participant;
             isAdmin = instanceof_Admin participant;
             currentRole = ''unknown'';
             currentRole = (if isCreator then ''creator''
                            else if isAdmin then ''admin''
                            else ''member'')
         in ret \<lparr>isOwner = isCreator,
                 currentRole = currentRole,
                 participantType = api_constructor_name api participant,
                 channelId = map_option toString (ent_id channel),
                 channelTitle = ent_title channel\<rparr>))))))"

subsection \<open>joinChannelIfNeeded (\<^verbatim>\<open>part_000\<close>, lines 190-254)\<close>

record join_result =
  joined :: bool
  alreadyMember :: bool

definition joinChannelIfNeeded :: "'w telegram \<Rightarrow> config \<Rightarrow> jsval \<Rightarrow> ('w, join_result) prog" where
  "joinChannelIfNeeded api cfg channelUsername =
     with_client api cfg
      (await (remote Connect (api_connect api)) (\<lambda>connected.
       await (lift (normalizeUsername channelUsername)) (\<lambda>normalizedUsername.
       await (remote (GetEntity normalizedUsername) (api_getEntity api normalizedUsername)) (\<lambda>channel.
       await (remote GetMe (api_getMe api)) (\<lambda>me.
       await (try_catch
                (await (remote (GetParticipant channel me) (api_GetParticipant api channel me))
                   (\<lambda>participantInfo. ret True))
                (\<lambda>error. if errorMessage error = Some ''USER_NOT_PARTICIPANT''
                          then ret False else throw error)) (\<lambda>isMember.
         if \<not> isMember
         then await (remote (JoinChannel channel) (api_JoinChannel api channel)) (\<lambda>done_join.
                ret \<lparr>joined = True, alreadyMember = False\<rparr>)
         else ret \<lparr>joined = True, alreadyMember = True\<rparr>))))))"

subsection \<open>removeAllOtherAdmins (\<^verbatim>\<open>part_000\<close>, lines 257-348)\<close>

definition noRights :: ChatAdminRights where
  "noRights = \<lparr>changeInfo = False, postMessages = False, editMessages = False,
     deleteMessages = False, banUsers = False, inviteUsers = False, pinMessages = False,
     addAdmins = False, anonymous = False, manageCall = False, other = False,
     manageTopics = False\<rparr>"

text \<open>
  The \<^verbatim>\<open>for ... of\<close> loop over the listed participants, with the list of
  identifiers revoked so far. \<^verbatim>\<open>participant.userId?.toString() === me.id.toString()\<close>
  is false when the record has no \<^verbatim>\<open>userId\<close>; then the rights edit is still
  requested, and \<^verbatim>\<open>participant.userId.toString()\<close> after it throws inside
  the inner \<^verbatim>\<open>try\<close>, whose \<^verbatim>\<open>catch\<close> logs and goes on.
\<close>

fun revoke_loop ::
  "'w telegram \<Rightarrow> entity \<Rightarrow> user \<Rightarrow> participant list \<Rightarrow> string list \<Rightarrow> ('w, string list) prog" where
  "revoke_loop api channel me [] removedAdmins = ret removedAdmins"
| "revoke_loop api channel me (participant # rest) removedAdmins =
     (if instanceof_Creator participant then revoke_loop api channel me rest removedAdmins
      else if map_option toString (userId participant) = Some (toString (user_id me))
      then revoke_loop api channel me rest removedAdmins
      else await
         (try_catch
            (await (remote (EditAdmin channel (userId participant) noRights [])
                      (api_EditAdmin api channel (userId participant) noRights []))
               (\<lambda>edited. case userId participant of
                    None \<Rightarrow> throw (TypeError ''Cannot read properties of undefined (reading toString)'')
                  | Some u \<Rightarrow> ret (removedAdmins @ [toString u])))
            (\<lambda>error. ret removedAdmins))
         (\<lambda>removedAdmins. revoke_loop api channel me rest removedAdmins))"

definition removeAllOtherAdmins :: "'w telegram \<Rightarrow> config \<Rightarrow> jsval \<Rightarrow> ('w, string list) prog" where
  "removeAllOtherAdmins api cfg channelUsername =
     with_client api cfg
      (await (remote Connect (api_connect api)) (\<lambda>connected.
       await (lift (normalizeUsername channelUsername)) (\<lambda>normalizedUsername.
       await (remote (GetEntity normalizedUsername) (api_getEntity api normalizedUsername)) (\<lambda>channel.
       await (remote GetMe (api_getMe api)) (\<lambda>me.
       await (remote (GetParticipants channel) (api_GetParticipants api channel)) (\<lambda>participants.
         case participants of
           ChannelParticipantsNotModified \<Rightarrow> throw (TypeError ''participants.participants is not iterable'')
         | ChannelParticipants ps \<Rightarrow> revoke_loop api channel me ps []))))))"

subsection \<open>leaveChannel (\<^verbatim>\<open>part_000\<close>, lines 351-387)\<close>

record leave_result =
  left :: bool

definition leaveChannel :: "'w telegram \<Rightarrow> config \<Rightarrow> jsval \<Rightarrow> ('w, leave_result) prog" where
  "leaveChannel api cfg channelUsername =
     with_client api cfg
      (await (remote Connect (api_connect api)) (\<lambda>connected.
       await (lift (normalizeUsername channelUsername)) (\<lambda>normalizedUsername.
       await (remote (GetEntity normalizedUsername) (api_getEntity api normalizedUsername)) (\<lambda>channel.
       await (remote (LeaveChannel channel) (api_LeaveChannel api channel)) (\<lambda>done_leave.
         ret \<lparr>left = True\<rparr>)))))"

subsection \<open>transferChannelOwnership (the same text in both files)\<close>

definition transferChannelOwnership ::
  "'w telegram \<Rightarrow> config \<Rightarrow> jsval \<Rightarrow> jsval \<Rightarrow> ('w, unit) prog" where
  "transferChannelOwnership api cfg channelUsername buyerUsername =
     with_client api cfg
      (await (remote Connect (api_connect api)) (\<lambda>connected.
       await (lift (normalizeUsername channelUsername)) (\<lambda>normalizedChannel.
       await (lift (normalizeUsername buyerUsername)) (\<lambda>normalizedBuyer.
       await (remote (GetEntity normalizedChannel) (api_getEntity api normalizedChannel)) (\<lambda>channel.
       await (remote (GetEntity normalizedBuyer) (api_getEntity api normalizedBuyer)) (\<lambda>buyerUser.
       await (remote GetPassword (api_GetPassword api)) (\<lambda>passwordSrp.
       await (local_op (api_computeCheck api passwordSrp (ADMIN_2FA_PASSWORD cfg))) (\<lambda>passwordHash.
       await (remote (EditCreator channel buyerUser passwordHash)
                (api_EditCreator api channel buyerUser passwordHash)) (\<lambda>transferred.
         ret ())))))))))"

section \<open>The HTTP handlers\<close>

record request =
  headers :: "string \<rightharpoonup> string"
  body :: "string \<rightharpoonup> jsval"

record response =
  status :: nat
  json :: jsval

text \<open>\<^verbatim>\<open>const { k } = req.body\<close>\<close>

definition body_field :: "request \<Rightarrow> string \<Rightarrow> jsval" where
  "body_field req k = (case body req k of None \<Rightarrow> JUndefined | Some v \<Rightarrow> v)"

text \<open>\<^verbatim>\<open>res.json\<close> serialises an object without its undefined properties.\<close>

definition object :: "(string \<times> jsval) list \<Rightarrow> jsval" where
  "object kvs = JObj (filter (\<lambda>kv. snd kv \<noteq> JUndefined) kvs)"

definition opt_str :: "string option \<Rightarrow> jsval" where
  "opt_str x = (case x of None \<Rightarrow> JUndefined | Some s \<Rightarrow> JStr s)"

definition ownership_json :: "ownership \<Rightarrow> jsval" where
  "ownership_json r = object
     [(''isOwner'', JBool (isOwner r)),
      (''currentRole'', JStr (currentRole r)),
      (''participantType'', JStr (participantType r)),
      (''channelId'', opt_str (channelId r)),
      (''channelTitle'', opt_str (channelTitle r))]"

type_synonym 'w handler = "request \<Rightarrow> 'w state \<Rightarrow> response \<times> 'w state"

text \<open>The middleware \<^verbatim>\<open>verifySecret\<close> (lines 37-44 of both files).\<close>

definition verifySecret :: "config \<Rightarrow> 'w handler \<Rightarrow> 'w handler" where
  "verifySecret cfg next_handler req s =
     (let secret = headers req ''x-api-secret''
      in if secret \<noteq> Some (API_SECRET cfg)
         then (\<lparr>status = 401, json = object [(''error'', JStr ''Unauthorized'')]\<rparr>, s)
         else next_handler req s)"

text \<open>The \<^verbatim>\<open>try { ... } catch (error) { res.status(..).json(..) }\<close> of a handler.\<close>

definition respond :: "('w, response) prog \<Rightarrow> (js_error \<Rightarrow> response) \<Rightarrow> 'w state \<Rightarrow> response \<times> 'w state" where
  "respond m h s = (case m s of (Inl e, s') \<Rightarrow> (h e, s') | (Inr r, s') \<Rightarrow> (r, s'))"

definition join_channel_handler :: "'w telegram \<Rightarrow> config \<Rightarrow> 'w handler" where
  "join_channel_handler api cfg req s =
     (let channelUsername = body_field req ''channelUsername''
      in if \<not> truthy channelUsername
         then (\<lparr>status = 400, json = object [(''error'', JStr ''channelUsername is required'')]\<rparr>, s)
         else respond
           (await (joinChannelIfNeeded api cfg channelUsername) (\<lambda>result.
              ret \<lparr>status = 200, json = object
                     [(''joined'', JBool (joined result)),
                      (''alreadyMember'', JBool (alreadyMember result))]\<rparr>))
           (\<lambda>error. \<lparr>status = 500, json = object [(''error'', JStr (message error))]\<rparr>) s)"

definition check_ownership_handler :: "'w telegram \<Rightarrow> config \<Rightarrow> 'w handler" where
  "check_ownership_handler api cfg req s =
     (let channelUsername = body_field req ''channelUsername''
      in if \<not> truthy channelUsername
         then (\<lparr>status = 400, json = object [(''error'', JStr ''channelUsername is required'')]\<rparr>, s)
         else respond
           (await (checkChannelOwnership api cfg channelUsername) (\<lambda>result.
              ret \<lparr>status = 200, json = ownership_json result\<rparr>))
           (\<lambda>error. \<lparr>status = 500, json = object
                       [(''error'', JStr (message error)),
                        (''isOwner'', JBool False),
                        (''currentRole'', JStr (''error: '' @ message error))]\<rparr>) s)"

text \<open>The transfer handler of \<^verbatim>\<open>part_000\<close> (lines 118-187): five steps.\<close>

definition transfer_ownership_handler :: "'w telegram \<Rightarrow> config \<Rightarrow> 'w handler" where
  "transfer_ownership_handler api cfg req s =
     (let jobId = body_field req ''jobId'';
          channelUsername = body_field req ''channelUsername'';
          buyerUsername = body_field req ''buyerUsername''
      in if \<not> truthy jobId \<or> \<not> truthy channelUsername \<or> \<not> truthy buyerUsername
         then (\<lparr>status = 400, json = object
                 [(''error'', JStr ''jobId, channelUsername, and buyerUsername are required'')]\<rparr>, s)
         else respond
           (await (joinChannelIfNeeded api cfg channelUsername) (\<lambda>joined_channel.
            await (checkChannelOwnership api cfg channelUsername) (\<lambda>ownershipCheck.
              if \<not> isOwner ownershipCheck
              then ret \<lparr>status = 400, json = object
                     [(''error'', JStr ''Transfer not ready''),
                      (''details'', ownership_json ownershipCheck),
                      (''instruction'', JStr ''Seller must first transfer channel ownership to escrow account'')]\<rparr>
              else
            await (removeAllOtherAdmins api cfg channelUsername) (\<lambda>removedAdmins.
            await (transferChannelOwnership api cfg channelUsername buyerUsername) (\<lambda>transferred.
            await (leaveChannel api cfg channelUsername) (\<lambda>left_channel.
              ret \<lparr>status = 200, json = object
                     [(''success'', JBool True),
                      (''message'', JStr ''Ownership transferred successfully''),
                      (''jobId'', jobId),
                      (''transferComplete'', JBool True),
                      (''steps'', object
                         [(''joined'', JBool True),
                          (''adminsRemoved'', JNum (of_nat (length removedAdmins))),
                          (''ownershipTransferred'', JBool True),
                          (''escrowLeft'', JBool True)])]\<rparr>))))))
           (\<lambda>error. \<lparr>status = 500, json = object
                       [(''error'', JStr (message error)),
                        (''stack'', JStr (stack error))]\<rparr>) s)"

text \<open>
  A POST as it reaches the application: its headers, and what the body parser
  \<^verbatim>\<open>express.json()\<close> makes of its payload. The parser is mounted on every
  path (line 13) before any route: it sets \<^verbatim>\<open>req.body\<close> to the object it
  read (the empty object when there is no JSON payload), or it passes an
  error to \<^verbatim>\<open>next\<close>, which skips the route and reaches the error
  middleware at the end of the file (lines 508-511). \<^verbatim>\<open>cors()\<close> lets a
  POST through and is left out.
\<close>

record http_request =
  http_headers :: "string \<rightharpoonup> string"
  http_json :: "js_error + (string \<rightharpoonup> jsval)"

definition express_json :: "http_request \<Rightarrow> js_error + request" where
  "express_json hreq =
     (case http_json hreq of
        Inl err \<Rightarrow> Inl err
      | Inr parsed \<Rightarrow> Inr \<lparr>headers = http_headers hreq, body = parsed\<rparr>)"

definition error_middleware :: "js_error \<Rightarrow> response" where
  "error_middleware err = \<lparr>status = 500, json = object
     [(''error'', JStr ''Internal server error''), (''message'', JStr (message err))]\<rparr>"

text \<open>The routes of \<^verbatim>\<open>part_000\<close> that take a POST, each behind \<^verbatim>\<open>verifySecret\<close>.\<close>

datatype post_route = Join_channel | Check_ownership | Transfer_ownership

fun post_handler :: "'w telegram \<Rightarrow> config \<Rightarrow> post_route \<Rightarrow> 'w handler" where
  "post_handler api cfg Join_channel = join_channel_handler api cfg"
| "post_handler api cfg Check_ownership = check_ownership_handler api cfg"
| "post_handler api cfg Transfer_ownership = transfer_ownership_handler api cfg"

definition app_post ::
  "'w telegram \<Rightarrow> config \<Rightarrow> post_route \<Rightarrow> http_request \<Rightarrow> 'w state \<Rightarrow> response \<times> 'w state" where
  "app_post api cfg route hreq s =
     (case express_json hreq of
        Inl err \<Rightarrow> (error_middleware err, s)
      | Inr req \<Rightarrow> verifySecret cfg (post_handler api cfg route) req s)"

subsection \<open>The three-step variant (index.js, lines 95-171)\<close>

text \<open>
  The ledger client. Its queries resolve to \<^verbatim>\<open>{ data, error }\<close> and do not
  reject: \<open>ledger_update_job\<close> gives the \<^verbatim>\<open>error\<close> of the update of the job
  row, \<open>ledger_select_job\<close> the \<^verbatim>\<open>listing_id\<close> of the row that
  \<^verbatim>\<open>.single()\<close> found, \<open>None\<close> when \<^verbatim>\<open>data\<close> is null.
  \<open>ledger_now\<close> is \<^verbatim>\<open>new Date().toISOString()\<close>.
\<close>

record 'w ledger =
  ledger_now :: "'w \<Rightarrow> string"
  ledger_update_job :: "jsval \<Rightarrow> string \<Rightarrow> 'w \<Rightarrow> string option \<times> 'w"
  ledger_select_job :: "jsval \<Rightarrow> 'w \<Rightarrow> jsval option \<times> 'w"
  ledger_update_listing :: "jsval \<Rightarrow> 'w \<Rightarrow> 'w"

definition query :: "('w \<Rightarrow> 'a \<times> 'w) \<Rightarrow> ('w, 'a) prog" where
  "query f s = (case f (fst s) of (x, w') \<Rightarrow> (Inr x, (w', snd s)))"

definition transfer_ownership_handler_v1 :: "'w telegram \<Rightarrow> 'w ledger \<Rightarrow> config \<Rightarrow> 'w handler" where
  "transfer_ownership_handler_v1 api supabase cfg req s =
     (let jobId = body_field req ''jobId'';
          channelUsername = body_field req ''channelUsername'';
          buyerUsername = body_field req ''buyerUsername''
      in if \<not> truthy jobId \<or> \<not> truthy channelUsername \<or> \<not> truthy buyerUsername
         then (\<lparr>status = 400, json = object
                 [(''error'', JStr ''jobId, channelUsername, and buyerUsername are required'')]\<rparr>, s)
         else respond
           (await (checkChannelOwnership api cfg channelUsername) (\<lambda>ownershipCheck.
              if \<not> isOwner ownershipCheck
              then ret \<lparr>status = 400, json = object
                     [(''error'', JStr ''Transfer not ready''),
                      (''details'', ownership_json ownershipCheck),
                      (''instruction'', JStr ''Seller must first transfer channel ownership to admin account'')]\<rparr>
              else
            await (transferChannelOwnership api cfg channelUsername buyerUsername) (\<lambda>transferred.
            await (query (\<lambda>w. ledger_update_job supabase jobId (ledger_now supabase w) w)) (\<lambda>updateError.
            await (query (ledger_select_job supabase jobId)) (\<lambda>job.
            await (case job of
                     None \<Rightarrow> ret ()
                   | Some listing_id \<Rightarrow> query (\<lambda>w. ((), ledger_update_listing supabase listing_id w))) (\<lambda>marked.
              ret \<lparr>status = 200, json = object
                     [(''success'', JBool True),
                      (''message'', JStr ''Ownership transferred successfully''),
                      (''jobId'', jobId)]\<rparr>))))))
           (\<lambda>error. \<lparr>status = 500, json = object
                       [(''error'', JStr (message error)),
                        (''stack'', JStr (stack error))]\<rparr>) s)"

section \<open>A small platform to run the code on\<close>

text \<open>
  One channel, \<^verbatim>\<open>shop1\<close>, with a roster of participant records; the escrow
  account has identifier 1 and the buyer, \<^verbatim>\<open>buyer\<close>, identifier 7. The
  rights of the users listed in \<open>protected\<close> cannot be edited. Every
  participant class is named \<^verbatim>\<open>VirtualClass\<close>. The ledger
  holds one job and its listing, and answers only while \<open>ledger_up\<close>.
\<close>

record sim =
  roster :: "participant list"
  protected :: "int list"
  ledger_up :: bool
  job_status :: string
  listing_status :: string

definition rpc_error :: "string \<Rightarrow> js_error" where
  "rpc_error code = \<lparr>message = ''400: '' @ code, errorMessage = Some code, stack = ''RPCError: 400: '' @ code\<rparr>"

definition shop1 :: entity where
  "shop1 = \<lparr>ent_id = Some 100, ent_title = Some ''Shop One''\<rparr>"

definition buyer :: entity where
  "buyer = \<lparr>ent_id = Some 7, ent_title = None\<rparr>"

definition escrow :: user where
  "escrow = \<lparr>user_id = 1\<rparr>"

definition sim_getEntity :: "string \<Rightarrow> sim \<Rightarrow> (js_error + entity) \<times> sim" where
  "sim_getEntity name w =
     (if name = ''shop1'' then (Inr shop1, w)
      else if name = ''buyer'' then (Inr buyer, w)
      else (Inl (rpc_error ''USERNAME_NOT_OCCUPIED''), w))"

definition sim_GetParticipant :: "entity \<Rightarrow> user \<Rightarrow> sim \<Rightarrow> (js_error + participant) \<times> sim" where
  "sim_GetParticipant ch u w =
     (case find (\<lambda>p. userId p = Some (user_id u)) (roster w) of
        None \<Rightarrow> (Inl (rpc_error ''USER_NOT_PARTICIPANT''), w)
      | Some p \<Rightarrow> (Inr p, w))"

definition sim_JoinChannel :: "entity \<Rightarrow> sim \<Rightarrow> (js_error + unit) \<times> sim" where
  "sim_JoinChannel ch w = (Inr (), w\<lparr>roster := roster w @ [ChannelParticipantSelf 1]\<rparr>)"

definition sim_GetParticipants :: "entity \<Rightarrow> sim \<Rightarrow> (js_error + participants_reply) \<times> sim" where
  "sim_GetParticipants ch w =
     (Inr (ChannelParticipants
        (filter (\<lambda>p. instanceof_Creator p \<or> instanceof_Admin p) (roster w))), w)"

definition sim_EditAdmin ::
  "entity \<Rightarrow> int option \<Rightarrow> ChatAdminRights \<Rightarrow> string \<Rightarrow> sim \<Rightarrow> (js_error + unit) \<times> sim" where
  "sim_EditAdmin ch target rights rank w =
     (case target of
        None \<Rightarrow> (Inl (rpc_error ''USER_ID_INVALID''), w)
      | Some u \<Rightarrow>
          if u \<in> set (protected w) then (Inl (rpc_error ''CHAT_ADMIN_REQUIRED''), w)
          else (Inr (), w\<lparr>roster :=
                  map (\<lambda>p. if p = ChannelParticipantAdmin u then ChannelParticipant u else p)
                    (roster w)\<rparr>))"

definition sim_LeaveChannel :: "entity \<Rightarrow> sim \<Rightarrow> (js_error + unit) \<times> sim" where
  "sim_LeaveChannel ch w = (Inr (), w\<lparr>roster := filter (\<lambda>p. userId p \<noteq> Some 1) (roster w)\<rparr>)"

definition sim_computeCheck ::
  "password_srp \<Rightarrow> string option \<Rightarrow> sim \<Rightarrow> (js_error + password_check) \<times> sim" where
  "sim_computeCheck srp password w =
     (case (srp, password) of
        (PasswordSrp salt, Some pw) \<Rightarrow> (Inr (PasswordCheck (salt + length pw)), w)
      | (PasswordSrp salt, None) \<Rightarrow> (Inl (TypeError ''password must be a string''), w))"

definition sim_EditCreator ::
  "entity \<Rightarrow> entity \<Rightarrow> password_check \<Rightarrow> sim \<Rightarrow> (js_error + unit) \<times> sim" where
  "sim_EditCreator ch target chk w =
     (if chk \<noteq> PasswordCheck 11 then (Inl (rpc_error ''PASSWORD_HASH_INVALID''), w)
      else case ent_id target of
        None \<Rightarrow> (Inl (rpc_error ''USER_ID_INVALID''), w)
      | Some b \<Rightarrow> (Inr (), w\<lparr>roster :=
          map (\<lambda>p. if p = ChannelParticipantCreator 1 then ChannelParticipantAdmin 1 else p)
            (filter (\<lambda>p. userId p \<noteq> Some b) (roster w)) @ [ChannelParticipantCreator b]\<rparr>))"

definition sim_api :: "sim telegram" where
  "sim_api = \<lparr>
     api_newTelegramClient = (\<lambda>session api_id api_hash.
        if session = [] then Inl (TypeError ''Not a valid string'') else Inr ()),
     api_connect = (\<lambda>w. (Inr (), w)),
     api_disconnect = (\<lambda>w. (Inr (), w)),
     api_getEntity = sim_getEntity,
     api_getMe = (\<lambda>w. (Inr escrow, w)),
     api_GetParticipant = sim_GetParticipant,
     api_JoinChannel = sim_JoinChannel,
     api_GetParticipants = sim_GetParticipants,
     api_EditAdmin = sim_EditAdmin,
     api_LeaveChannel = sim_LeaveChannel,
     api_GetPassword = (\<lambda>w. (Inr (PasswordSrp 5), w)),
     api_computeCheck = sim_computeCheck,
     api_EditCreator = sim_EditCreator,
     api_constructor_name = (\<lambda>p. ''VirtualClass'')\<rparr>"

definition sim_ledger :: "sim ledger" where
  "sim_ledger = \<lparr>
     ledger_now = (\<lambda>w. ''2024-01-01T00:00:00.000Z''),
     ledger_update_job = (\<lambda>job ts w.
        if ledger_up w then (None, w\<lparr>job_status := ''completed''\<rparr>)
        else (Some ''fetch failed'', w)),
     ledger_select_job = (\<lambda>job w.
        if ledger_up w then (Some (JStr ''listing-1''), w) else (None, w)),
     ledger_update_listing = (\<lambda>listing w.
        if ledger_up w then w\<lparr>listing_status := ''sold''\<rparr> else w)\<rparr>"

definition sim_cfg :: config where
  "sim_cfg = \<lparr>ADMIN_SESSION_STRING = Some '' 1BQANOTEuMTA4 '',
               ADMIN_2FA_PASSWORD = Some ''secret'',
               API_ID = Some 12345,
               API_HASH = Some ''0123456789abcdef'',
               env_API_SECRET = Some ''s3cret''\<rparr>"

definition sim_world :: "participant list \<Rightarrow> sim" where
  "sim_world ps = \<lparr>roster = ps, protected = [13], ledger_up = False,
                    job_status = ''pending'', listing_status = ''active''\<rparr>"

definition transfer_request :: request where
  "transfer_request = \<lparr>
     headers = [''x-api-secret'' \<mapsto> ''s3cret''],
     body = [''jobId'' \<mapsto> JStr ''job-42'', ''channelUsername'' \<mapsto> JStr ''@shop1'',
             ''buyerUsername'' \<mapsto> JStr ''@buyer'']\<rparr>"

text \<open>The same request as it arrives, and a POST whose payload is not JSON.\<close>

definition transfer_post :: http_request where
  "transfer_post = \<lparr>http_headers = headers transfer_request,
                     http_json = Inr (body transfer_request)\<rparr>"

definition malformed_post :: http_request where
  "malformed_post = \<lparr>
     http_headers = [''x-api-secret'' \<mapsto> ''guess''],
     http_json = Inl \<lparr>message = ''Unexpected token j in JSON at position 1'',
                      errorMessage = None,
                      stack = ''SyntaxError: Unexpected token j in JSON at position 1''\<rparr>\<rparr>"

section \<open>Notions used in the properties and their proofs\<close>

text \<open>
  The participants of a listing that the revocation loop does not skip: not a
  creator record, and not the escrow's own identifier.
\<close>

definition qualifying :: "user \<Rightarrow> participant list \<Rightarrow> participant list" where
  "qualifying me ps =
     filter (\<lambda>p. (case p of ChannelParticipantCreator u \<Rightarrow> False | _ \<Rightarrow> True)
                \<and> userId p \<noteq> Some (user_id me)) ps"

text \<open>
  The identifiers pushed for a list of targets, given which of the rights
  edits returned.
\<close>

definition revoked_ids :: "participant list \<Rightarrow> bool list \<Rightarrow> string list" where
  "revoked_ids targets oks =
     concat (map (\<lambda>(p, ok). case userId p of
                    Some u \<Rightarrow> if ok then [toString u] else []
                  | None \<Rightarrow> [])
               (zip targets oks))"

text \<open>The calls of the three steps that follow the ownership check.\<close>

fun is_EditAdmin :: "call \<Rightarrow> bool" where
  "is_EditAdmin (EditAdmin ch u r k) = True"
| "is_EditAdmin c = False"

fun is_EditCreator :: "call \<Rightarrow> bool" where
  "is_EditCreator (EditCreator ch b k) = True"
| "is_EditCreator c = False"

fun is_LeaveChannel :: "call \<Rightarrow> bool" where
  "is_LeaveChannel (LeaveChannel ch) = True"
| "is_LeaveChannel c = False"

text \<open>
  \<open>emits P m\<close>: whatever the platform answers, every remote call that \<open>m\<close>
  adds to the log satisfies \<open>P\<close>, and \<open>m\<close> only ever appends to the log.
\<close>

definition emits :: "(call \<Rightarrow> bool) \<Rightarrow> ('w, 'a) prog \<Rightarrow> bool" where
  "emits P m \<longleftrightarrow> (\<forall>s. \<exists>l. snd (snd (m s)) = snd s @ l \<and> (\<forall>e\<in>set l. P (fst e)))"

text \<open>The value of a decimal digit, to read a rendering back.\<close>

definition digit_val :: "char \<Rightarrow> nat" where
  "digit_val c = of_char c - 48"

section \<open>Properties\<close>

subsection \<open>Unfolding the combinators, evaluating the small platform\<close>

lemmas prog_defs = ret_def throw_def lift_def await_def try_catch_def try_finally_def
  remote_def local_op_def query_def respond_def with_client_def new_client_def returned_def

lemmas sim_defs = sim_api_def sim_cfg_def sim_world_def sim_getEntity_def sim_GetParticipant_def
  sim_JoinChannel_def sim_GetParticipants_def sim_EditAdmin_def sim_LeaveChannel_def
  sim_computeCheck_def sim_EditCreator_def shop1_def buyer_def escrow_def rpc_error_def
  trim_def is_space_def

subsection \<open>Identifiers and their decimal rendering\<close>

text \<open>
  The revocation loop compares identifiers through \<^verbatim>\<open>toString()\<close>; the
  rendering is injective, so the comparison of the strings is the comparison of
  the identifiers.
\<close>

lemma digit_val_digit_char: "d < 10 \<Longrightarrow> digit_val (digit_char d) = d"
  by (simp add: digit_val_def digit_char_def)

lemma digits_value: "foldl (\<lambda>acc c. acc * 10 + digit_val c) 0 (digits n) = n"
proof (induction n rule: digits.induct)
  case (1 n)
  show ?case
  proof (cases "n < 10")
    case True
    then show ?thesis by (simp add: digit_val_digit_char)
  next
    case False
    with 1 show ?thesis
      by (subst digits.simps) (simp add: digit_val_digit_char)
  qed
qed

lemma digits_inj: "digits m = digits n \<Longrightarrow> m = n"
  by (metis digits_value)

lemma digit_char_not_minus: "k < 10 \<Longrightarrow> digit_char k \<noteq> CHR ''-''"
proof
  assume "k < 10" and "digit_char k = CHR ''-''"
  then have "(of_char (digit_char k) :: nat) = of_char (CHR ''-'')" by simp
  with \<open>k < 10\<close> show False by (simp add: digit_char_def)
qed

lemma digits_no_minus: "CHR ''-'' \<notin> set (digits n)"
proof (induction n rule: digits.induct)
  case (1 n)
  show ?case
  proof (cases "n < 10")
    case True
    then show ?thesis using digit_char_not_minus[of n] by auto
  next
    case False
    with 1 show ?thesis using digit_char_not_minus[of "n mod 10"]
      by (subst digits.simps) auto
  qed
qed

lemma toString_inj: "toString i = toString j \<longleftrightarrow> i = j"
proof
  assume eq: "toString i = toString j"
  have neg: False if "CHR ''-'' # digits a = digits b" for a b
    using digits_no_minus[of b] that by (metis list.set_intros(1))
  show "i = j"
  proof (cases "i < 0")
    case True
    show ?thesis
    proof (cases "j < 0")
      case True
      with \<open>i < 0\<close> eq have "digits (nat (- i)) = digits (nat (- j))" by (simp add: toString_def)
      then have "nat (- i) = nat (- j)" by (rule digits_inj)
      with True \<open>i < 0\<close> show ?thesis by simp
    next
      case False
      with \<open>i < 0\<close> eq neg show ?thesis by (simp add: toString_def) 
    qed
  next
    case False
    show ?thesis
    proof (cases "j < 0")
      case True
      with False eq neg[of "nat (- j)" "nat i"] show ?thesis by (simp add: toString_def)
    next
      case jf: False
      with False eq have "digits (nat i) = digits (nat j)" by (simp add: toString_def)
      then have "nat i = nat j" by (rule digits_inj)
      with False jf show ?thesis by simp
    qed
  qed
qed simp

subsection \<open>Request fields\<close>

lemma truthy_defined: "truthy v \<Longrightarrow> v \<noteq> JUndefined"
  by (cases v) simp_all

subsection \<open>The revocation loop\<close>

lemma qualifying_Cons:
  "qualifying me (p # ps) =
     (if instanceof_Creator p \<or> userId p = Some (user_id me) then qualifying me ps
      else p # qualifying me ps)"
  by (cases p) (simp_all add: qualifying_def)

lemma self_test:
  "(map_option toString (userId p) = Some (toString (user_id me))) = (userId p = Some (user_id me))"
  by (cases "userId p") (simp_all add: toString_inj)

lemma revoked_ids_Cons:
  "revoked_ids (p # ps) (ok # oks) =
     (case userId p of Some u \<Rightarrow> if ok then [toString u] else [] | None \<Rightarrow> [])
       @ revoked_ids ps oks"
  by (simp add: revoked_ids_def)

lemma revoke_loop_skip:
  "instanceof_Creator p \<or> userId p = Some (user_id me) \<Longrightarrow>
   revoke_loop api channel me (p # ps) acc = revoke_loop api channel me ps acc"
  by (auto simp: self_test)

lemma revoke_loop_step:
  assumes "\<not> instanceof_Creator p" and "userId p \<noteq> Some (user_id me)"
    and "api_EditAdmin api channel (userId p) noRights [] w = (r, w1)"
  shows "revoke_loop api channel me (p # ps) acc (w, l0) =
         revoke_loop api channel me ps
           (acc @ (case userId p of Some u \<Rightarrow> if returned r then [toString u] else []
                   | None \<Rightarrow> []))
           (w1, l0 @ [(EditAdmin channel (userId p) noRights [], returned r)])"
  using assms
  by (cases r; cases "userId p") (simp_all add: prog_defs toString_inj)

lemma revoke_loop_run:
  "\<exists>oks w'. length oks = length (qualifying me ps) \<and>
     revoke_loop api channel me ps acc (w, l0) =
       (Inr (acc @ revoked_ids (qualifying me ps) oks), w',
        l0 @ zip (map (\<lambda>p. EditAdmin channel (userId p) noRights []) (qualifying me ps)) oks)"
proof (induction ps arbitrary: acc w l0)
  case Nil
  show ?case
    by (simp add: qualifying_def revoked_ids_def ret_def)
next
  case (Cons p ps)
  show ?case
  proof (cases "instanceof_Creator p \<or> userId p = Some (user_id me)")
    case True
    then show ?thesis
      using Cons.IH [of acc w l0]
      by (simp only: revoke_loop_skip qualifying_Cons if_True)
  next
    case False
    obtain r w1 where edit: "api_EditAdmin api channel (userId p) noRights [] w = (r, w1)"
      by (cases "api_EditAdmin api channel (userId p) noRights [] w")
    let ?acc = "acc @ (case userId p of Some u \<Rightarrow> if returned r then [toString u] else []
                       | None \<Rightarrow> [])"
    let ?l1 = "l0 @ [(EditAdmin channel (userId p) noRights [], returned r)]"
    from Cons.IH [of ?acc w1 ?l1]
    obtain oks w' where len: "length oks = length (qualifying me ps)"
      and run: "revoke_loop api channel me ps ?acc (w1, ?l1) =
        (Inr (?acc @ revoked_ids (qualifying me ps) oks), w',
         ?l1 @ zip (map (\<lambda>p. EditAdmin channel (userId p) noRights []) (qualifying me ps)) oks)"
      by blast
    from False have q: "qualifying me (p # ps) = p # qualifying me ps"
      by (simp add: qualifying_Cons)
    from False edit have step: "revoke_loop api channel me (p # ps) acc (w, l0) =
        revoke_loop api channel me ps ?acc (w1, ?l1)"
      by (intro revoke_loop_step) simp_all
    have "length (returned r # oks) = length (qualifying me (p # ps))"
      using len q by simp
    moreover have "revoke_loop api channel me (p # ps) acc (w, l0) =
       (Inr (acc @ revoked_ids (qualifying me (p # ps)) (returned r # oks)), w',
        l0 @ zip (map (\<lambda>p. EditAdmin channel (userId p) noRights []) (qualifying me (p # ps)))
               (returned r # oks))"
      unfolding step run q by (simp add: revoked_ids_Cons)
    ultimately show ?thesis by blast
  qed
qed

lemma qualifying_sound:
  "p \<in> set (qualifying me ps) \<Longrightarrow>
     p \<in> set ps \<and> (\<forall>u. p \<noteq> ChannelParticipantCreator u) \<and> userId p \<noteq> Some (user_id me)"
  by (auto simp: qualifying_def)

lemma revoked_ids_all:
  "length oks = length targets \<Longrightarrow> \<forall>ok\<in>set oks. ok \<Longrightarrow> \<forall>p\<in>set targets. userId p \<noteq> None \<Longrightarrow>
   revoked_ids targets oks = map (\<lambda>p. toString (the (userId p))) targets"
proof (induction targets arbitrary: oks)
  case Nil
  then show ?case by (simp add: revoked_ids_def)
next
  case (Cons p ps)
  then obtain ok oks' where oks: "oks = ok # oks'" by (cases oks) auto
  with Cons.prems have "revoked_ids ps oks' = map (\<lambda>p. toString (the (userId p))) ps"
    by (intro Cons.IH) auto
  with Cons.prems oks show ?case
    by (auto simp: revoked_ids_Cons)
qed

subsection \<open>Which calls a step can add to the log\<close>

lemma emitsD:
  "emits P m \<Longrightarrow> m s = (r, s') \<Longrightarrow> \<exists>l. snd s' = snd s @ l \<and> (\<forall>e\<in>set l. P (fst e))"
  unfolding emits_def by (metis snd_conv)

lemma emits_ret: "emits P (ret x)"
  by (simp add: emits_def ret_def)

lemma emits_throw: "emits P (throw e)"
  by (simp add: emits_def throw_def)

lemma emits_lift: "emits P (lift r)"
  by (simp add: emits_def lift_def)

lemma emits_remote: "P c \<Longrightarrow> emits P (remote c f)"
  by (simp add: emits_def remote_def split: prod.splits)

lemma emits_local_op: "emits P (local_op f)"
  by (simp add: emits_def local_op_def split: prod.splits)

lemma emits_query: "emits P (query f)"
  by (simp add: emits_def query_def split: prod.splits)

lemma emits_await:
  assumes "emits P m" and "\<And>x. emits P (k x)"
  shows "emits P (await m k)"
  unfolding emits_def
proof
  fix s
  obtain r s1 where m: "m s = (r, s1)" by (cases "m s")
  from emitsD [OF assms(1) m] obtain l1 where l1: "snd s1 = snd s @ l1" "\<forall>e\<in>set l1. P (fst e)"
    by blast
  show "\<exists>l. snd (snd (await m k s)) = snd s @ l \<and> (\<forall>e\<in>set l. P (fst e))"
  proof (cases r)
    case (Inl e)
    with m l1 show ?thesis by (simp add: await_def)
  next
    case (Inr x)
    obtain r2 s2 where k: "k x s1 = (r2, s2)" by (cases "k x s1")
    from emitsD [OF assms(2) k] obtain l2 where "snd s2 = snd s1 @ l2" "\<forall>e\<in>set l2. P (fst e)"
      by blast
    with l1 have "snd s2 = snd s @ (l1 @ l2) \<and> (\<forall>e\<in>set (l1 @ l2). P (fst e))" by auto
    with Inr m k show ?thesis by (auto simp: await_def simp del: append_assoc)
  qed
qed

lemma emits_try_catch:
  assumes "emits P m" and "\<And>e. emits P (h e)"
  shows "emits P (try_catch m h)"
  unfolding emits_def
proof
  fix s
  obtain r s1 where m: "m s = (r, s1)" by (cases "m s")
  from emitsD [OF assms(1) m] obtain l1 where l1: "snd s1 = snd s @ l1" "\<forall>e\<in>set l1. P (fst e)"
    by blast
  show "\<exists>l. snd (snd (try_catch m h s)) = snd s @ l \<and> (\<forall>e\<in>set l. P (fst e))"
  proof (cases r)
    case (Inr x)
    with m l1 show ?thesis by (simp add: try_catch_def)
  next
    case (Inl e)
    obtain r2 s2 where k: "h e s1 = (r2, s2)" by (cases "h e s1")
    from emitsD [OF assms(2) k] obtain l2 where "snd s2 = snd s1 @ l2" "\<forall>e\<in>set l2. P (fst e)"
      by blast
    with l1 have "snd s2 = snd s @ (l1 @ l2) \<and> (\<forall>e\<in>set (l1 @ l2). P (fst e))" by auto
    with Inl m k show ?thesis by (auto simp: try_catch_def simp del: append_assoc)
  qed
qed

lemma emits_try_finally:
  assumes "emits P m" and "emits P fin"
  shows "emits P (try_finally m fin)"
  unfolding emits_def
proof
  fix s
  obtain r s1 where m: "m s = (r, s1)" by (cases "m s")
  from emitsD [OF assms(1) m] obtain l1 where l1: "snd s1 = snd s @ l1" "\<forall>e\<in>set l1. P (fst e)"
    by blast
  obtain r2 s2 where k: "fin s1 = (r2, s2)" by (cases "fin s1")
  from emitsD [OF assms(2) k] obtain l2 where "snd s2 = snd s1 @ l2" "\<forall>e\<in>set l2. P (fst e)"
    by blast
  with l1 have "snd s2 = snd s @ (l1 @ l2) \<and> (\<forall>e\<in>set (l1 @ l2). P (fst e))" by auto
  with m k show "\<exists>l. snd (snd (try_finally m fin s)) = snd s @ l \<and> (\<forall>e\<in>set l. P (fst e))"
    by (cases r2) (auto simp: try_finally_def simp del: append_assoc)
qed

lemma emits_with_client:
  assumes "emits P work" and "P Disconnect"
  shows "emits P (with_client api cfg work)"
  unfolding with_client_def new_client_def
  by (intro emits_await emits_try_finally emits_remote assms)
     (simp_all add: emits_throw emits_lift split: option.splits)

lemma emits_revoke_loop:
  assumes "\<And>u. P (EditAdmin channel u noRights [])"
  shows "emits P (revoke_loop api channel me ps acc)"
proof (induction ps arbitrary: acc)
  case Nil
  show ?case by (simp add: emits_ret)
next
  case (Cons p ps)
  show ?case
    by (auto intro!: emits_await emits_try_catch emits_remote emits_ret emits_throw assms Cons
          split: option.splits)
qed

lemma emits_join:
  assumes "\<And>c. \<not> is_EditAdmin c \<Longrightarrow> \<not> is_EditCreator c \<Longrightarrow> \<not> is_LeaveChannel c \<Longrightarrow> P c"
  shows "emits P (joinChannelIfNeeded api cfg ch)"
  unfolding joinChannelIfNeeded_def
  by (auto intro!: emits_with_client emits_await emits_try_catch emits_remote emits_ret
        emits_throw emits_lift assms)

lemma emits_check:
  assumes "\<And>c. \<not> is_EditAdmin c \<Longrightarrow> \<not> is_EditCreator c \<Longrightarrow> \<not> is_LeaveChannel c \<Longrightarrow> P c"
  shows "emits P (checkChannelOwnership api cfg ch)"
  unfolding checkChannelOwnership_def Let_def
  by (auto intro!: emits_with_client emits_await emits_try_catch emits_remote emits_ret
        emits_throw emits_lift assms)

lemma emits_revoke:
  assumes "\<And>c. \<not> is_EditCreator c \<Longrightarrow> \<not> is_LeaveChannel c \<Longrightarrow> P c"
  shows "emits P (removeAllOtherAdmins api cfg ch)"
  unfolding removeAllOtherAdmins_def
  by (auto intro!: emits_with_client emits_await emits_try_catch emits_remote emits_ret
        emits_throw emits_lift emits_revoke_loop assms split: participants_reply.splits)

lemma emits_transfer:
  assumes "\<And>c. \<not> is_EditAdmin c \<Longrightarrow> \<not> is_LeaveChannel c \<Longrightarrow> P c"
  shows "emits P (transferChannelOwnership api cfg ch b)"
  unfolding transferChannelOwnership_def
  by (auto intro!: emits_with_client emits_await emits_try_catch emits_remote emits_ret
        emits_throw emits_lift emits_local_op assms)

lemma emits_leave: "emits (\<lambda>c. True) (leaveChannel api cfg ch)"
  unfolding leaveChannel_def
  by (auto intro!: emits_with_client emits_await emits_remote emits_ret emits_lift)

lemma transfer_returned:
  assumes "transferChannelOwnership api cfg ch b s = (Inr x, s')"
  shows "\<exists>l c t k. snd s' = snd s @ l \<and> (EditCreator c t k, True) \<in> set l"
  using assms
  by (auto simp: transferChannelOwnership_def prog_defs
        split: option.splits sum.splits prod.splits if_splits)

lemma after_handoff:
  assumes "\<forall>e\<in>set l1. \<not> is_LeaveChannel (fst e)"
    and "(EditCreator c t k, True) \<in> set l1"
    and "l1 @ l2 = pre @ (LeaveChannel ch, ok) # post"
  shows "(EditCreator c t k, True) \<in> set pre"
proof -
  from assms(3) obtain us where
    "(l1 = pre @ us \<and> us @ l2 = (LeaveChannel ch, ok) # post) \<or>
     (l1 @ us = pre \<and> l2 = us @ (LeaveChannel ch, ok) # post)"
    by (auto simp: append_eq_append_conv2)
  then show ?thesis
  proof
    assume a: "l1 = pre @ us \<and> us @ l2 = (LeaveChannel ch, ok) # post"
    show ?thesis
    proof (cases us)
      case Nil
      with a assms(2) show ?thesis by simp
    next
      case (Cons u us')
      with a have "(LeaveChannel ch, ok) \<in> set l1" by simp
      with assms(1) show ?thesis by fastforce
    qed
  next
    assume "l1 @ us = pre \<and> l2 = us @ (LeaveChannel ch, ok) # post"
    with assms(2) show ?thesis by auto
  qed
qed

lemma transfer_handler_log:
  "\<exists>l. snd (snd (transfer_ownership_handler api cfg req s)) = snd s @ l \<and>
       ((\<forall>e\<in>set l. \<not> is_LeaveChannel (fst e)) \<or>
        (\<exists>l1 l2 c t k. l = l1 @ l2 \<and> (\<forall>e\<in>set l1. \<not> is_LeaveChannel (fst e)) \<and>
            (EditCreator c t k, True) \<in> set l1))"
proof -
  let ?ch = "body_field req ''channelUsername''"
  let ?b = "body_field req ''buyerUsername''"
  let ?NL = "\<lambda>c. \<not> is_LeaveChannel c"
  note h = transfer_ownership_handler_def Let_def respond_def await_def ret_def
  show ?thesis
  proof (cases "\<not> truthy (body_field req ''jobId'') \<or> \<not> truthy ?ch \<or> \<not> truthy ?b")
    case True
    then have "snd (snd (transfer_ownership_handler api cfg req s)) = snd s @ []"
      by (auto simp: h)
    then show ?thesis by fastforce
  next
    case valid: False
    obtain r1 s1 where j: "joinChannelIfNeeded api cfg ?ch s = (r1, s1)"
      by (cases "joinChannelIfNeeded api cfg ?ch s")
    from emitsD [OF emits_join j, of ?NL]
    obtain l1 where l1: "snd s1 = snd s @ l1" "\<forall>e\<in>set l1. ?NL (fst e)" by auto
    show ?thesis
    proof (cases r1)
      case (Inl e)
      with valid j l1 show ?thesis by (auto simp: h)
    next
      case r1: (Inr joined_channel)
      obtain r2 s2 where c: "checkChannelOwnership api cfg ?ch s1 = (r2, s2)"
        by (cases "checkChannelOwnership api cfg ?ch s1")
      from emitsD [OF emits_check c, of ?NL]
      obtain l2 where l2: "snd s2 = snd s1 @ l2" "\<forall>e\<in>set l2. ?NL (fst e)" by auto
      from l1 l2 have l12: "snd s2 = snd s @ (l1 @ l2)" "\<forall>e\<in>set (l1 @ l2). ?NL (fst e)"
        by auto
      show ?thesis
      proof (cases r2)
        case (Inl e)
        with valid j r1 c l12 show ?thesis by (auto simp: h simp del: append_assoc)
      next
        case r2: (Inr oc)
        show ?thesis
        proof (cases "isOwner oc")
          case False
          with valid j r1 c r2 l12 show ?thesis by (auto simp: h simp del: append_assoc)
        next
          case owner: True
          obtain r3 s3 where rv: "removeAllOtherAdmins api cfg ?ch s2 = (r3, s3)"
            by (cases "removeAllOtherAdmins api cfg ?ch s2")
          from emitsD [OF emits_revoke rv, of ?NL]
          obtain l3 where l3: "snd s3 = snd s2 @ l3" "\<forall>e\<in>set l3. ?NL (fst e)" by auto
          from l12 l3 have l123: "snd s3 = snd s @ (l1 @ l2 @ l3)"
            "\<forall>e\<in>set (l1 @ l2 @ l3). ?NL (fst e)"
            by auto
          show ?thesis
          proof (cases r3)
            case (Inl e)
            with valid j r1 c r2 owner rv l123 show ?thesis
              by (auto simp: h simp del: append_assoc)
          next
            case r3: (Inr removedAdmins)
            obtain r4 s4 where t: "transferChannelOwnership api cfg ?ch ?b s3 = (r4, s4)"
              by (cases "transferChannelOwnership api cfg ?ch ?b s3")
            from emitsD [OF emits_transfer t, of ?NL]
            obtain l4 where l4: "snd s4 = snd s3 @ l4" "\<forall>e\<in>set l4. ?NL (fst e)" by auto
            from l123 l4 have l1234: "snd s4 = snd s @ (l1 @ l2 @ l3 @ l4)"
              "\<forall>e\<in>set (l1 @ l2 @ l3 @ l4). ?NL (fst e)"
              by auto
            show ?thesis
            proof (cases r4)
              case (Inl e)
              with valid j r1 c r2 owner rv r3 t l1234 show ?thesis
                by (auto simp: h simp del: append_assoc)
            next
              case r4: (Inr transferred)
              from transfer_returned [OF t [unfolded r4]] l4(1)
              obtain ec et ek where "(EditCreator ec et ek, True) \<in> set l4" by auto
              then have ed: "(EditCreator ec et ek, True) \<in> set (l1 @ l2 @ l3 @ l4)" by simp
              obtain r5 s5 where lv: "leaveChannel api cfg ?ch s4 = (r5, s5)"
                by (cases "leaveChannel api cfg ?ch s4")
              from emitsD [OF emits_leave lv]
              obtain l5 where "snd s5 = snd s4 @ l5" by auto
              with l1234 have l5: "snd s5 = snd s @ ((l1 @ l2 @ l3 @ l4) @ l5)" by simp
              from valid j r1 c r2 owner rv r3 t r4 lv
              have "snd (transfer_ownership_handler api cfg req s) = s5"
                by (cases r5) (auto simp: h)
              with l5 l1234(2) ed show ?thesis by blast
            qed
          qed
        qed
      qed
    qed
  qed
qed

subsection \<open>The ownership classifier\<close>

text \<open>
  Claim C3. When the session opens, the channel and the escrow's own entity
  resolve, the platform returns the participant record \<open>p\<close> and the session
  closes, \<^verbatim>\<open>checkChannelOwnership\<close> returns a result whose \<open>isOwner\<close> is
  true exactly when \<open>p\<close> is a creator record, and whose \<open>currentRole\<close> is
  \<^verbatim>\<open>creator\<close> for a creator record, \<^verbatim>\<open>admin\<close> for an admin record
  and \<^verbatim>\<open>member\<close> for every other record. The function has the same text
  in \<^verbatim>\<open>index.js\<close> and in \<^verbatim>\<open>part_000\<close>.
\<close>

theorem checkChannelOwnership_classifies:
  assumes "ADMIN_SESSION_STRING cfg = Some session"
    and "api_newTelegramClient api (trim session) (API_ID cfg) (API_HASH cfg) = Inr ()"
    and "api_connect api w = (Inr (), w1)"
    and "normalizeUsername channelUsername = Inr name"
    and "api_getEntity api name w1 = (Inr channel, w2)"
    and "api_getMe api w2 = (Inr me, w3)"
    and "api_GetParticipant api channel me w3 = (Inr p, w4)"
    and "api_disconnect api w4 = (Inr (), w5)"
  shows "\<exists>r. checkChannelOwnership api cfg channelUsername (w, l0) =
            (Inr r, w5, l0 @ [(Connect, True), (GetEntity name, True), (GetMe, True),
                               (GetParticipant channel me, True), (Disconnect, True)])
          \<and> (isOwner r \<longleftrightarrow> (\<exists>u. p = ChannelParticipantCreator u))
          \<and> currentRole r = (case p of ChannelParticipantCreator u \<Rightarrow> ''creator''
                              | ChannelParticipantAdmin u \<Rightarrow> ''admin''
                              | _ \<Rightarrow> ''member'')"
  using assms
  by (cases p) (simp_all add: checkChannelOwnership_def prog_defs)

text \<open>The escrow account as an administrator of a channel created by user 2.\<close>

theorem checkChannelOwnership_classifies_witness:
  "\<exists>r. checkChannelOwnership sim_api sim_cfg (JStr ''@shop1'')
          (sim_world [ChannelParticipantCreator 2, ChannelParticipantAdmin 1], []) =
            (Inr r, sim_world [ChannelParticipantCreator 2, ChannelParticipantAdmin 1],
             [(Connect, True), (GetEntity ''shop1'', True), (GetMe, True),
              (GetParticipant shop1 escrow, True), (Disconnect, True)])
        \<and> \<not> isOwner r \<and> currentRole r = ''admin''"
proof -
  let ?w = "sim_world [ChannelParticipantCreator 2, ChannelParticipantAdmin 1]"
  have 1: "ADMIN_SESSION_STRING sim_cfg = Some '' 1BQANOTEuMTA4 ''"
    by (simp add: sim_cfg_def)
  have 2: "api_newTelegramClient sim_api (trim '' 1BQANOTEuMTA4 '') (API_ID sim_cfg) (API_HASH sim_cfg) = Inr ()"
    by (simp add: sim_defs)
  have 3: "api_connect sim_api ?w = (Inr (), ?w)"
    by (simp add: sim_api_def)
  have 4: "normalizeUsername (JStr ''@shop1'') = Inr ''shop1''"
    by simp
  have 5: "api_getEntity sim_api ''shop1'' ?w = (Inr shop1, ?w)"
    by (simp add: sim_api_def sim_getEntity_def)
  have 6: "api_getMe sim_api ?w = (Inr escrow, ?w)"
    by (simp add: sim_api_def)
  have 7: "api_GetParticipant sim_api shop1 escrow ?w = (Inr (ChannelParticipantAdmin 1), ?w)"
    by (simp add: sim_defs)
  have 8: "api_disconnect sim_api ?w = (Inr (), ?w)"
    by (simp add: sim_api_def)
  from checkChannelOwnership_classifies [OF 1 2 3 4 5 6 7 8, of "[]"]
  show ?thesis by simp
qed

text \<open>
  Claim C9. Whenever \<^verbatim>\<open>checkChannelOwnership\<close> returns, \<open>currentRole\<close> is
  one of \<^verbatim>\<open>creator\<close>, \<^verbatim>\<open>admin\<close>, \<^verbatim>\<open>member\<close>, never the initial
  \<^verbatim>\<open>unknown\<close>; and the run has looked up a participant record \<open>p\<close> such
  that, when \<open>p\<close> is of any class other than the creator and the admin class
  (a banned or a left record, say), the result reports \<^verbatim>\<open>member\<close> and
  \<open>isOwner\<close> false.
\<close>

theorem checkChannelOwnership_roles:
  assumes "checkChannelOwnership api cfg channelUsername s = (Inr r, s')"
  shows "currentRole r \<in> {''creator'', ''admin'', ''member''}
       \<and> currentRole r \<noteq> ''unknown''
       \<and> (\<exists>name channel me p w1 w2 w3 w4.
             api_connect api (fst s) = (Inr (), w1) \<and>
             normalizeUsername channelUsername = Inr name \<and>
             api_getEntity api name w1 = (Inr channel, w2) \<and>
             api_getMe api w2 = (Inr me, w3) \<and>
             api_GetParticipant api channel me w3 = (Inr p, w4) \<and>
             ((\<forall>u. p \<noteq> ChannelParticipantCreator u) \<and> (\<forall>u. p \<noteq> ChannelParticipantAdmin u) \<longrightarrow>
                currentRole r = ''member'' \<and> \<not> isOwner r))"
proof -
  from assms obtain name channel me p w1 w2 w3 w4 where
    chain: "api_connect api (fst s) = (Inr (), w1)"
      "normalizeUsername channelUsername = Inr name"
      "api_getEntity api name w1 = (Inr channel, w2)"
      "api_getMe api w2 = (Inr me, w3)"
      "api_GetParticipant api channel me w3 = (Inr p, w4)"
    and r: "isOwner r = instanceof_Creator p"
      "currentRole r = (if instanceof_Creator p then ''creator''
                        else if instanceof_Admin p then ''admin'' else ''member'')"
    by (auto simp: checkChannelOwnership_def prog_defs Let_def
          split: prod.splits sum.splits option.splits if_splits)
  from r have roles: "currentRole r \<in> {''creator'', ''admin'', ''member''}"
    "currentRole r \<noteq> ''unknown''"
    by auto
  from r have other: "currentRole r = ''member'' \<and> \<not> isOwner r"
    if "\<forall>u. p \<noteq> ChannelParticipantCreator u" "\<forall>u. p \<noteq> ChannelParticipantAdmin u"
    using that by (cases p) auto
  from chain roles other show ?thesis by blast
qed

text \<open>The escrow account as a plain member.\<close>

theorem checkChannelOwnership_roles_witness:
  "checkChannelOwnership sim_api sim_cfg (JStr ''shop1'')
      (sim_world [ChannelParticipantCreator 2, ChannelParticipantSelf 1], []) =
     (Inr \<lparr>isOwner = False, currentRole = ''member'', participantType = ''VirtualClass'',
           channelId = Some ''100'', channelTitle = Some ''Shop One''\<rparr>,
      sim_world [ChannelParticipantCreator 2, ChannelParticipantSelf 1],
      [(Connect, True), (GetEntity ''shop1'', True), (GetMe, True),
       (GetParticipant shop1 escrow, True), (Disconnect, True)])
   \<and> ''member'' \<in> {''creator'', ''admin'', ''member''} \<and> ''member'' \<noteq> ''unknown''"
proof -
  have run: "checkChannelOwnership sim_api sim_cfg (JStr ''shop1'')
      (sim_world [ChannelParticipantCreator 2, ChannelParticipantSelf 1], []) =
     (Inr \<lparr>isOwner = False, currentRole = ''member'', participantType = ''VirtualClass'',
           channelId = Some ''100'', channelTitle = Some ''Shop One''\<rparr>,
      sim_world [ChannelParticipantCreator 2, ChannelParticipantSelf 1],
      [(Connect, True), (GetEntity ''shop1'', True), (GetMe, True),
       (GetParticipant shop1 escrow, True), (Disconnect, True)])"
    by code_simp
  from checkChannelOwnership_roles [OF run] run show ?thesis by simp
qed

text \<open>
  Claim C4, as amended. When the participant lookup rejects with the sentinel
  \<^verbatim>\<open>USER_NOT_PARTICIPANT\<close>, \<^verbatim>\<open>checkChannelOwnership\<close> returns no
  role: it disconnects and throws the error of the lookup, or the error of the
  disconnect when that fails too. (The claim as written, a result with a
  not-participant role and \<open>isOwner\<close> false, is refuted below; the code gives
  \<open>currentRole\<close> no such value.)
\<close>

theorem checkChannelOwnership_not_participant:
  assumes "ADMIN_SESSION_STRING cfg = Some session"
    and "api_newTelegramClient api (trim session) (API_ID cfg) (API_HASH cfg) = Inr ()"
    and "api_connect api w = (Inr (), w1)"
    and "normalizeUsername channelUsername = Inr name"
    and "api_getEntity api name w1 = (Inr channel, w2)"
    and "api_getMe api w2 = (Inr me, w3)"
    and "api_GetParticipant api channel me w3 = (Inl e, w4)"
    and "errorMessage e = Some ''USER_NOT_PARTICIPANT''"
    and "api_disconnect api w4 = (d, w5)"
  shows "checkChannelOwnership api cfg channelUsername (w, l0) =
           (Inl (case d of Inl e' \<Rightarrow> e' | Inr u \<Rightarrow> e), w5,
            l0 @ [(Connect, True), (GetEntity name, True), (GetMe, True),
                  (GetParticipant channel me, False), (Disconnect, returned d)])"
  using assms
  by (cases d) (simp_all add: checkChannelOwnership_def prog_defs)

text \<open>The amended claim on a channel the escrow account is not in.\<close>

theorem checkChannelOwnership_not_participant_witness:
  "checkChannelOwnership sim_api sim_cfg (JStr ''@shop1'')
     (sim_world [ChannelParticipantCreator 2], []) =
       (Inl (rpc_error ''USER_NOT_PARTICIPANT''), sim_world [ChannelParticipantCreator 2],
        [(Connect, True), (GetEntity ''shop1'', True), (GetMe, True),
         (GetParticipant shop1 escrow, False), (Disconnect, True)])"
proof -
  let ?w = "sim_world [ChannelParticipantCreator 2]"
  have 1: "ADMIN_SESSION_STRING sim_cfg = Some '' 1BQANOTEuMTA4 ''"
    by (simp add: sim_cfg_def)
  have 2: "api_newTelegramClient sim_api (trim '' 1BQANOTEuMTA4 '') (API_ID sim_cfg) (API_HASH sim_cfg) = Inr ()"
    by (simp add: sim_defs)
  have 3: "api_connect sim_api ?w = (Inr (), ?w)"
    by (simp add: sim_api_def)
  have 4: "normalizeUsername (JStr ''@shop1'') = Inr ''shop1''"
    by simp
  have 5: "api_getEntity sim_api ''shop1'' ?w = (Inr shop1, ?w)"
    by (simp add: sim_api_def sim_getEntity_def)
  have 6: "api_getMe sim_api ?w = (Inr escrow, ?w)"
    by (simp add: sim_api_def)
  have 7: "api_GetParticipant sim_api shop1 escrow ?w = (Inl (rpc_error ''USER_NOT_PARTICIPANT''), ?w)"
    by (simp add: sim_defs)
  have 8: "errorMessage (rpc_error ''USER_NOT_PARTICIPANT'') = Some ''USER_NOT_PARTICIPANT''"
    by (simp add: rpc_error_def)
  have 9: "api_disconnect sim_api ?w = (Inr (), ?w)"
    by (simp add: sim_api_def)
  from checkChannelOwnership_not_participant [OF 1 2 3 4 5 6 7 8 9, of "[]"]
  show ?thesis by (simp add: returned_def)
qed

text \<open>
  Claim C4 as written fails there: the platform answers the lookup with the
  sentinel, and the classifier throws it instead of returning a result.
\<close>

theorem checkChannelOwnership_not_participant_counterexample:
  "api_GetParticipant sim_api shop1 escrow (sim_world [ChannelParticipantCreator 2]) =
     (Inl (rpc_error ''USER_NOT_PARTICIPANT''), sim_world [ChannelParticipantCreator 2])
   \<and> fst (checkChannelOwnership sim_api sim_cfg (JStr ''@shop1'')
            (sim_world [ChannelParticipantCreator 2], [])) = Inl (rpc_error ''USER_NOT_PARTICIPANT'')"
  by code_simp

subsection \<open>Joining the channel\<close>

text \<open>
  Claim C6. With the session open and the entities resolved, the three
  outcomes of the participant lookup in \<^verbatim>\<open>joinChannelIfNeeded\<close>: on the
  sentinel \<^verbatim>\<open>USER_NOT_PARTICIPANT\<close> exactly one join request is made and,
  when it returns, the result is \<^verbatim>\<open>{joined: true, alreadyMember: false}\<close>;
  when the lookup returns a record the result is
  \<^verbatim>\<open>{joined: true, alreadyMember: true}\<close> and no join request is made; any
  other error of the lookup is thrown to the caller, again without a join
  request. The log of the run is given in full in each case.
\<close>

theorem joinChannelIfNeeded_cases:
  assumes "ADMIN_SESSION_STRING cfg = Some session"
    and "api_newTelegramClient api (trim session) (API_ID cfg) (API_HASH cfg) = Inr ()"
    and "api_connect api w = (Inr (), w1)"
    and "normalizeUsername channelUsername = Inr name"
    and "api_getEntity api name w1 = (Inr channel, w2)"
    and "api_getMe api w2 = (Inr me, w3)"
    and "api_GetParticipant api channel me w3 = (lookup, w4)"
  shows "(\<forall>e j w5 w6.
            lookup = Inl e \<and> errorMessage e = Some ''USER_NOT_PARTICIPANT'' \<and>
            api_JoinChannel api channel w4 = (j, w5) \<and> api_disconnect api w5 = (Inr (), w6) \<longrightarrow>
            joinChannelIfNeeded api cfg channelUsername (w, l0) =
              (case j of Inl e' \<Rightarrow> Inl e' | Inr u \<Rightarrow> Inr \<lparr>joined = True, alreadyMember = False\<rparr>,
               w6,
               l0 @ [(Connect, True), (GetEntity name, True), (GetMe, True),
                     (GetParticipant channel me, False), (JoinChannel channel, returned j),
                     (Disconnect, True)]))
       \<and> (\<forall>p w5.
            lookup = Inr p \<and> api_disconnect api w4 = (Inr (), w5) \<longrightarrow>
            joinChannelIfNeeded api cfg channelUsername (w, l0) =
              (Inr \<lparr>joined = True, alreadyMember = True\<rparr>, w5,
               l0 @ [(Connect, True), (GetEntity name, True), (GetMe, True),
                     (GetParticipant channel me, True), (Disconnect, True)]))
       \<and> (\<forall>e w5.
            lookup = Inl e \<and> errorMessage e \<noteq> Some ''USER_NOT_PARTICIPANT'' \<and>
            api_disconnect api w4 = (Inr (), w5) \<longrightarrow>
            joinChannelIfNeeded api cfg channelUsername (w, l0) =
              (Inl e, w5,
               l0 @ [(Connect, True), (GetEntity name, True), (GetMe, True),
                     (GetParticipant channel me, False), (Disconnect, True)]))"
  using assms
  by (auto simp: joinChannelIfNeeded_def prog_defs split: sum.splits)

text \<open>A first call joins; a second call on the state it leaves finds the membership.\<close>

theorem joinChannelIfNeeded_cases_witness:
  "joinChannelIfNeeded sim_api sim_cfg (JStr ''@shop1'')
     (sim_world [ChannelParticipantCreator 2], []) =
       (Inr \<lparr>joined = True, alreadyMember = False\<rparr>,
        sim_world [ChannelParticipantCreator 2, ChannelParticipantSelf 1],
        [(Connect, True), (GetEntity ''shop1'', True), (GetMe, True),
         (GetParticipant shop1 escrow, False), (JoinChannel shop1, True), (Disconnect, True)])
   \<and> joinChannelIfNeeded sim_api sim_cfg (JStr ''@shop1'')
     (sim_world [ChannelParticipantCreator 2, ChannelParticipantSelf 1], []) =
       (Inr \<lparr>joined = True, alreadyMember = True\<rparr>,
        sim_world [ChannelParticipantCreator 2, ChannelParticipantSelf 1],
        [(Connect, True), (GetEntity ''shop1'', True), (GetMe, True),
         (GetParticipant shop1 escrow, True), (Disconnect, True)])"
proof -
  let ?w = "sim_world [ChannelParticipantCreator 2]"
  let ?w' = "sim_world [ChannelParticipantCreator 2, ChannelParticipantSelf 1]"
  have 1: "ADMIN_SESSION_STRING sim_cfg = Some '' 1BQANOTEuMTA4 ''"
    by (simp add: sim_cfg_def)
  have 2: "api_newTelegramClient sim_api (trim '' 1BQANOTEuMTA4 '') (API_ID sim_cfg) (API_HASH sim_cfg) = Inr ()"
    by (simp add: sim_defs)
  have 3: "api_connect sim_api w = (Inr (), w)" for w
    by (simp add: sim_api_def)
  have 4: "normalizeUsername (JStr ''@shop1'') = Inr ''shop1''"
    by simp
  have 5: "api_getEntity sim_api ''shop1'' w = (Inr shop1, w)" for w
    by (simp add: sim_api_def sim_getEntity_def)
  have 6: "api_getMe sim_api w = (Inr escrow, w)" for w
    by (simp add: sim_api_def)
  have 7: "api_GetParticipant sim_api shop1 escrow ?w = (Inl (rpc_error ''USER_NOT_PARTICIPANT''), ?w)"
    by (simp add: sim_defs)
  have m7: "api_GetParticipant sim_api shop1 escrow ?w' = (Inr (ChannelParticipantSelf 1), ?w')"
    by (simp add: sim_defs)
  have a: "Inl (rpc_error ''USER_NOT_PARTICIPANT'') = Inl (rpc_error ''USER_NOT_PARTICIPANT'') \<and>
      errorMessage (rpc_error ''USER_NOT_PARTICIPANT'') = Some ''USER_NOT_PARTICIPANT'' \<and>
      api_JoinChannel sim_api shop1 ?w = (Inr (), ?w') \<and>
      api_disconnect sim_api ?w' = (Inr (), ?w')"
    by (simp add: sim_defs)
  have b: "Inr (ChannelParticipantSelf 1) = Inr (ChannelParticipantSelf 1) \<and>
      api_disconnect sim_api ?w' = (Inr (), ?w')"
    by (simp add: sim_defs)
  from joinChannelIfNeeded_cases [OF 1 2 3 4 5 6 7, of "[]", THEN conjunct1, rule_format, OF a]
  have first: "joinChannelIfNeeded sim_api sim_cfg (JStr ''@shop1'') (?w, []) =
       (Inr \<lparr>joined = True, alreadyMember = False\<rparr>, ?w',
        [(Connect, True), (GetEntity ''shop1'', True), (GetMe, True),
         (GetParticipant shop1 escrow, False), (JoinChannel shop1, True), (Disconnect, True)])"
    by (simp add: returned_def)
  from joinChannelIfNeeded_cases [OF 1 2 3 4 5 6 m7, of "[]", THEN conjunct2, THEN conjunct1,
      rule_format, OF b]
  have second: "joinChannelIfNeeded sim_api sim_cfg (JStr ''@shop1'') (?w', []) =
       (Inr \<lparr>joined = True, alreadyMember = True\<rparr>, ?w',
        [(Connect, True), (GetEntity ''shop1'', True), (GetMe, True),
         (GetParticipant shop1 escrow, True), (Disconnect, True)])"
    by simp
  from first second show ?thesis by (rule conjI)
qed

subsection \<open>Revoking the other administrators\<close>

text \<open>
  Claim C5. When the session opens, the entities resolve and the platform lists
  the participants \<open>ps\<close>, \<^verbatim>\<open>removeAllOtherAdmins\<close> requests one rights
  edit, with every right false and an empty rank, for each listed record that
  is not a creator record and whose identifier is not the escrow's own, in
  the order of the listing, and requests no other. Whatever each of these
  requests answers (\<open>oks\<close> are their outcomes), the loop runs to its end and
  the function returns, unless the disconnect fails, the identifiers of the
  targets whose request returned; when every request returns these are the
  identifiers of all the targets.
\<close>

theorem removeAllOtherAdmins_revokes:
  assumes "ADMIN_SESSION_STRING cfg = Some session"
    and "api_newTelegramClient api (trim session) (API_ID cfg) (API_HASH cfg) = Inr ()"
    and "api_connect api w = (Inr (), w1)"
    and "normalizeUsername channelUsername = Inr name"
    and "api_getEntity api name w1 = (Inr channel, w2)"
    and "api_getMe api w2 = (Inr me, w3)"
    and "api_GetParticipants api channel w3 = (Inr (ChannelParticipants ps), w4)"
  shows "\<exists>oks w5.
      length oks = length (qualifying me ps)
    \<and> (\<forall>p\<in>set (qualifying me ps).
          p \<in> set ps \<and> (\<forall>u. p \<noteq> ChannelParticipantCreator u) \<and> userId p \<noteq> Some (user_id me))
    \<and> (\<forall>d w6. api_disconnect api w5 = (d, w6) \<longrightarrow>
          removeAllOtherAdmins api cfg channelUsername (w, l0) =
            (case d of Inl e \<Rightarrow> Inl e | Inr u \<Rightarrow> Inr (revoked_ids (qualifying me ps) oks),
             w6,
             l0 @ [(Connect, True), (GetEntity name, True), (GetMe, True),
                   (GetParticipants channel, True)]
                @ zip (map (\<lambda>p. EditAdmin channel (userId p) noRights []) (qualifying me ps)) oks
                @ [(Disconnect, returned d)]))
    \<and> ((\<forall>ok\<in>set oks. ok) \<and> (\<forall>p\<in>set (qualifying me ps). userId p \<noteq> None) \<longrightarrow>
          revoked_ids (qualifying me ps) oks =
            map (\<lambda>p. toString (the (userId p))) (qualifying me ps))"
proof -
  let ?l4 = "l0 @ [(Connect, True), (GetEntity name, True), (GetMe, True),
                   (GetParticipants channel, True)]"
  from revoke_loop_run [of me ps api channel "[]" w4 ?l4]
  obtain oks w5 where len: "length oks = length (qualifying me ps)"
    and run: "revoke_loop api channel me ps [] (w4, ?l4) =
       (Inr (revoked_ids (qualifying me ps) oks), w5,
        ?l4 @ zip (map (\<lambda>p. EditAdmin channel (userId p) noRights []) (qualifying me ps)) oks)"
    by auto
  have fin: "removeAllOtherAdmins api cfg channelUsername (w, l0) =
            (case d of Inl e \<Rightarrow> Inl e | Inr u \<Rightarrow> Inr (revoked_ids (qualifying me ps) oks),
             w6,
             ?l4 @ zip (map (\<lambda>p. EditAdmin channel (userId p) noRights []) (qualifying me ps)) oks
                @ [(Disconnect, returned d)])"
    if "api_disconnect api w5 = (d, w6)" for d w6
    using assms that run
    by (cases d) (simp_all add: removeAllOtherAdmins_def prog_defs)
  show ?thesis
    apply (rule exI [of _ oks], rule exI [of _ w5])
    using len fin qualifying_sound [of _ me ps] revoked_ids_all [of oks "qualifying me ps"]
    by (intro conjI) auto
qed

text \<open>
  A listing of the creator (the escrow account) and two administrators, the
  rights of one of whom cannot be edited.
\<close>

theorem removeAllOtherAdmins_revokes_witness:
  "\<exists>oks w5. length oks = 2 \<and>
     removeAllOtherAdmins sim_api sim_cfg (JStr ''@shop1'')
       (sim_world [ChannelParticipantCreator 1, ChannelParticipantAdmin 3,
                   ChannelParticipantAdmin 13, ChannelParticipant 7], []) =
       (Inr (revoked_ids [ChannelParticipantAdmin 3, ChannelParticipantAdmin 13] oks), w5,
        [(Connect, True), (GetEntity ''shop1'', True), (GetMe, True),
         (GetParticipants shop1, True)]
          @ zip [EditAdmin shop1 (Some 3) noRights [], EditAdmin shop1 (Some 13) noRights []] oks
          @ [(Disconnect, True)])"
proof -
  let ?w = "sim_world [ChannelParticipantCreator 1, ChannelParticipantAdmin 3,
                       ChannelParticipantAdmin 13, ChannelParticipant 7]"
  let ?ps = "[ChannelParticipantCreator 1, ChannelParticipantAdmin 3, ChannelParticipantAdmin 13]"
  have 1: "ADMIN_SESSION_STRING sim_cfg = Some '' 1BQANOTEuMTA4 ''"
    by (simp add: sim_cfg_def)
  have 2: "api_newTelegramClient sim_api (trim '' 1BQANOTEuMTA4 '') (API_ID sim_cfg) (API_HASH sim_cfg) = Inr ()"
    by (simp add: sim_defs)
  have 3: "api_connect sim_api ?w = (Inr (), ?w)"
    by (simp add: sim_api_def)
  have 4: "normalizeUsername (JStr ''@shop1'') = Inr ''shop1''"
    by simp
  have 5: "api_getEntity sim_api ''shop1'' ?w = (Inr shop1, ?w)"
    by (simp add: sim_api_def sim_getEntity_def)
  have 6: "api_getMe sim_api ?w = (Inr escrow, ?w)"
    by (simp add: sim_api_def)
  have 7: "api_GetParticipants sim_api shop1 ?w = (Inr (ChannelParticipants ?ps), ?w)"
    by (simp add: sim_defs)
  have q: "qualifying escrow ?ps = [ChannelParticipantAdmin 3, ChannelParticipantAdmin 13]"
    by (simp add: qualifying_def escrow_def)
  have d: "api_disconnect sim_api w5 = (Inr (), w5)" for w5
    by (simp add: sim_api_def)
  from removeAllOtherAdmins_revokes [OF 1 2 3 4 5 6 7, of "[]"]
  obtain oks w5 where len: "length oks = length (qualifying escrow ?ps)"
    and run: "\<forall>d w6. api_disconnect sim_api w5 = (d, w6) \<longrightarrow>
          removeAllOtherAdmins sim_api sim_cfg (JStr ''@shop1'') (?w, []) =
            (case d of Inl e \<Rightarrow> Inl e | Inr u \<Rightarrow> Inr (revoked_ids (qualifying escrow ?ps) oks),
             w6,
             [] @ [(Connect, True), (GetEntity ''shop1'', True), (GetMe, True),
                   (GetParticipants shop1, True)]
                @ zip (map (\<lambda>p. EditAdmin shop1 (userId p) noRights []) (qualifying escrow ?ps)) oks
                @ [(Disconnect, returned d)])"
    by blast
  from run d [of w5]
  have "removeAllOtherAdmins sim_api sim_cfg (JStr ''@shop1'') (?w, []) =
       (Inr (revoked_ids (qualifying escrow ?ps) oks), w5,
        [] @ [(Connect, True), (GetEntity ''shop1'', True), (GetMe, True),
         (GetParticipants shop1, True)]
          @ zip (map (\<lambda>p. EditAdmin shop1 (userId p) noRights []) (qualifying escrow ?ps)) oks
          @ [(Disconnect, returned (Inr () :: js_error + unit))])"
    by fastforce
  with len show ?thesis
    unfolding q by (intro exI [of _ oks] exI [of _ w5]) (simp add: returned_def)
qed

subsection \<open>The ownership precondition\<close>

text \<open>
  Claim C1. A request to the transfer endpoint of \<^verbatim>\<open>part_000\<close> that the
  body parser accepts and that passes the secret check and the validation,
  whose join step returns and whose
  ownership check returns a result with \<open>isOwner\<close> false, is answered 400
  with \<^verbatim>\<open>{error: "Transfer not ready", details, instruction}\<close>, \<open>details\<close>
  being the result of the check. The run ends in the state in which the check
  returned, and nothing it has added to the log is a rights edit, a creator
  handoff or a leave call.
\<close>

theorem not_owner_halts:
  assumes "express_json hreq = Inr req"
    and "headers req ''x-api-secret'' = Some (API_SECRET cfg)"
    and "truthy (body_field req ''jobId'')"
    and "truthy (body_field req ''channelUsername'')"
    and "truthy (body_field req ''buyerUsername'')"
    and "joinChannelIfNeeded api cfg (body_field req ''channelUsername'') s = (Inr j, s1)"
    and "checkChannelOwnership api cfg (body_field req ''channelUsername'') s1 = (Inr oc, s2)"
    and "\<not> isOwner oc"
  shows "app_post api cfg Transfer_ownership hreq s =
           (\<lparr>status = 400, json = JObj
               [(''error'', JStr ''Transfer not ready''),
                (''details'', ownership_json oc),
                (''instruction'',
                 JStr ''Seller must first transfer channel ownership to escrow account'')]\<rparr>, s2)
       \<and> (\<exists>l. snd s2 = snd s @ l \<and>
             (\<forall>e\<in>set l. \<not> is_EditAdmin (fst e) \<and> \<not> is_EditCreator (fst e) \<and>
                          \<not> is_LeaveChannel (fst e)))"
proof
  have "ownership_json oc \<noteq> JUndefined"
    by (simp add: ownership_json_def object_def)
  with assms show "app_post api cfg Transfer_ownership hreq s =
           (\<lparr>status = 400, json = JObj
               [(''error'', JStr ''Transfer not ready''),
                (''details'', ownership_json oc),
                (''instruction'',
                 JStr ''Seller must first transfer channel ownership to escrow account'')]\<rparr>, s2)"
    by (simp add: app_post_def verifySecret_def transfer_ownership_handler_def Let_def object_def
          respond_def await_def ret_def)
next
  let ?P = "\<lambda>c. \<not> is_EditAdmin c \<and> \<not> is_EditCreator c \<and> \<not> is_LeaveChannel c"
  from emitsD [OF emits_join assms(6), of ?P]
  obtain l1 where "snd s1 = snd s @ l1" "\<forall>e\<in>set l1. ?P (fst e)" by auto
  moreover from emitsD [OF emits_check assms(7), of ?P]
  obtain l2 where "snd s2 = snd s1 @ l2" "\<forall>e\<in>set l2. ?P (fst e)" by auto
  ultimately have "snd s2 = snd s @ (l1 @ l2) \<and> (\<forall>e\<in>set (l1 @ l2). ?P (fst e))" by auto
  then show "\<exists>l. snd s2 = snd s @ l \<and>
             (\<forall>e\<in>set l. \<not> is_EditAdmin (fst e) \<and> \<not> is_EditCreator (fst e) \<and>
                          \<not> is_LeaveChannel (fst e))"
    by blast
qed

text \<open>The escrow account joins a channel whose creator is user 2, and is then a plain member.\<close>

theorem not_owner_halts_witness:
  "fst (app_post sim_api sim_cfg Transfer_ownership transfer_post
          (sim_world [ChannelParticipantCreator 2, ChannelParticipantAdmin 3], [])) =
     \<lparr>status = 400, json = JObj
        [(''error'', JStr ''Transfer not ready''),
         (''details'', JObj
            [(''isOwner'', JBool False), (''currentRole'', JStr ''member''),
             (''participantType'', JStr ''VirtualClass''),
             (''channelId'', JStr ''100''), (''channelTitle'', JStr ''Shop One'')]),
         (''instruction'',
          JStr ''Seller must first transfer channel ownership to escrow account'')]\<rparr>"
proof -
  let ?s0 = "(sim_world [ChannelParticipantCreator 2, ChannelParticipantAdmin 3], [])"
  let ?ch = "body_field transfer_request ''channelUsername''"
  let ?s1 = "snd (joinChannelIfNeeded sim_api sim_cfg ?ch ?s0)"
  let ?s2 = "snd (checkChannelOwnership sim_api sim_cfg ?ch ?s1)"
  let ?oc = "\<lparr>isOwner = False, currentRole = ''member'',
              participantType = ''VirtualClass'',
              channelId = Some ''100'', channelTitle = Some ''Shop One''\<rparr>"
  have 0: "express_json transfer_post = Inr transfer_request"
    by (simp add: express_json_def transfer_post_def)
  have 1: "headers transfer_request ''x-api-secret'' = Some (API_SECRET sim_cfg)"
    by code_simp
  have 2: "truthy (body_field transfer_request ''jobId'')"
    by code_simp
  have 3: "truthy (body_field transfer_request ''channelUsername'')"
    by code_simp
  have 4: "truthy (body_field transfer_request ''buyerUsername'')"
    by code_simp
  have 5: "joinChannelIfNeeded sim_api sim_cfg ?ch ?s0 =
             (Inr \<lparr>joined = True, alreadyMember = False\<rparr>, ?s1)"
    by code_simp
  have 6: "checkChannelOwnership sim_api sim_cfg ?ch ?s1 = (Inr ?oc, ?s2)"
    by code_simp
  have 7: "\<not> isOwner ?oc"
    by simp
  from not_owner_halts [OF 0 1 2 3 4 5 6 7] show ?thesis
    by (simp add: ownership_json_def object_def opt_str_def)
qed

subsection \<open>The handoff comes before the leave\<close>

text \<open>
  Claim C2. First part, for a request that the body parser, the secret check
  and the validation let through: when the join, the check (with \<open>isOwner\<close> true) and
  the revocation have returned and \<^verbatim>\<open>transferChannelOwnership\<close> throws
  \<open>err\<close>, the endpoint answers 500 with the message (and the stack) of
  \<open>err\<close>, the run ends in the state in which the handoff threw, and no leave
  call is in what the run added to the log. Second part, for every request and
  every platform: wherever a leave call occurs in what a run added to the log,
  a creator edit that returned occurs before it.
\<close>

theorem leave_only_after_handoff:
  "(express_json hreq = Inr req \<and>
    headers req ''x-api-secret'' = Some (API_SECRET cfg) \<and>
    truthy (body_field req ''jobId'') \<and>
    truthy (body_field req ''channelUsername'') \<and>
    truthy (body_field req ''buyerUsername'') \<and>
    joinChannelIfNeeded api cfg (body_field req ''channelUsername'') s = (Inr j, s1) \<and>
    checkChannelOwnership api cfg (body_field req ''channelUsername'') s1 = (Inr oc, s2) \<and>
    isOwner oc \<and>
    removeAllOtherAdmins api cfg (body_field req ''channelUsername'') s2 = (Inr removedAdmins, s3) \<and>
    transferChannelOwnership api cfg (body_field req ''channelUsername'')
      (body_field req ''buyerUsername'') s3 = (Inl err, s4)
    \<longrightarrow>
      app_post api cfg Transfer_ownership hreq s =
        (\<lparr>status = 500, json = JObj [(''error'', JStr (message err)),
                                     (''stack'', JStr (stack err))]\<rparr>, s4)
      \<and> (\<exists>l. snd s4 = snd s @ l \<and> (\<forall>e\<in>set l. \<not> is_LeaveChannel (fst e))))
   \<and> (\<forall>pre ch ok post.
        snd (snd (app_post api cfg Transfer_ownership hreq s)) =
          snd s @ pre @ (LeaveChannel ch, ok) # post
        \<longrightarrow> (\<exists>c t k. (EditCreator c t k, True) \<in> set pre))"
proof (intro conjI impI allI; (elim conjE)?)
  assume p: "express_json hreq = Inr req"
  assume a: "headers req ''x-api-secret'' = Some (API_SECRET cfg)"
    "truthy (body_field req ''jobId'')"
    "truthy (body_field req ''channelUsername'')"
    "truthy (body_field req ''buyerUsername'')"
    "joinChannelIfNeeded api cfg (body_field req ''channelUsername'') s = (Inr j, s1)"
    "checkChannelOwnership api cfg (body_field req ''channelUsername'') s1 = (Inr oc, s2)"
    "isOwner oc"
    "removeAllOtherAdmins api cfg (body_field req ''channelUsername'') s2 = (Inr removedAdmins, s3)"
    "transferChannelOwnership api cfg (body_field req ''channelUsername'')
      (body_field req ''buyerUsername'') s3 = (Inl err, s4)"
  with p show "app_post api cfg Transfer_ownership hreq s =
        (\<lparr>status = 500, json = JObj [(''error'', JStr (message err)),
                                     (''stack'', JStr (stack err))]\<rparr>, s4)"
    by (simp add: app_post_def verifySecret_def transfer_ownership_handler_def Let_def object_def
          respond_def await_def ret_def)
  let ?P = "\<lambda>c. \<not> is_LeaveChannel c"
  from emitsD [OF emits_join a(5), of ?P]
  obtain l1 where "snd s1 = snd s @ l1" "\<forall>e\<in>set l1. ?P (fst e)" by auto
  moreover from emitsD [OF emits_check a(6), of ?P]
  obtain l2 where "snd s2 = snd s1 @ l2" "\<forall>e\<in>set l2. ?P (fst e)" by auto
  moreover from emitsD [OF emits_revoke a(8), of ?P]
  obtain l3 where "snd s3 = snd s2 @ l3" "\<forall>e\<in>set l3. ?P (fst e)" by auto
  moreover from emitsD [OF emits_transfer a(9), of ?P]
  obtain l4 where "snd s4 = snd s3 @ l4" "\<forall>e\<in>set l4. ?P (fst e)" by auto
  ultimately have "snd s4 = snd s @ (l1 @ l2 @ l3 @ l4) \<and>
      (\<forall>e\<in>set (l1 @ l2 @ l3 @ l4). ?P (fst e))"
    by auto
  then show "\<exists>l. snd s4 = snd s @ l \<and> (\<forall>e\<in>set l. \<not> is_LeaveChannel (fst e))"
    by blast
next
  fix pre ch ok post
  assume run: "snd (snd (app_post api cfg Transfer_ownership hreq s)) =
          snd s @ pre @ (LeaveChannel ch, ok) # post"
  show "\<exists>c t k. (EditCreator c t k, True) \<in> set pre"
  proof (cases "express_json hreq")
    case (Inl parse_error)
    with run show ?thesis by (simp add: app_post_def)
  next
    case (Inr req)
    show ?thesis
    proof (cases "headers req ''x-api-secret'' = Some (API_SECRET cfg)")
      case False
      with run Inr show ?thesis by (simp add: app_post_def verifySecret_def)
    next
      case True
      with run Inr have run': "snd (snd (transfer_ownership_handler api cfg req s)) =
            snd s @ pre @ (LeaveChannel ch, ok) # post"
        by (simp add: app_post_def verifySecret_def)
      from transfer_handler_log [of api cfg req s] obtain l where
        l: "snd (snd (transfer_ownership_handler api cfg req s)) = snd s @ l"
        and d: "(\<forall>e\<in>set l. \<not> is_LeaveChannel (fst e)) \<or>
          (\<exists>l1 l2 c t k. l = l1 @ l2 \<and> (\<forall>e\<in>set l1. \<not> is_LeaveChannel (fst e)) \<and>
              (EditCreator c t k, True) \<in> set l1)"
        by blast
      from l run' have eq: "l = pre @ (LeaveChannel ch, ok) # post" by simp
      from d show ?thesis
      proof
        assume "\<forall>e\<in>set l. \<not> is_LeaveChannel (fst e)"
        with eq show ?thesis by auto
      next
        assume "\<exists>l1 l2 c t k. l = l1 @ l2 \<and> (\<forall>e\<in>set l1. \<not> is_LeaveChannel (fst e)) \<and>
              (EditCreator c t k, True) \<in> set l1"
        then obtain l1 l2 c t k where split: "l = l1 @ l2"
          and quiet: "\<forall>e\<in>set l1. \<not> is_LeaveChannel (fst e)"
          and done_handoff: "(EditCreator c t k, True) \<in> set l1"
          by blast
        from split eq have "l1 @ l2 = pre @ (LeaveChannel ch, ok) # post" by simp
        from after_handoff [OF quiet done_handoff this] show ?thesis by (intro exI)
      qed
    qed
  qed
qed

text \<open>With a wrong two-factor password the platform rejects the creator edit.\<close>

theorem leave_only_after_handoff_witness:
  "fst (app_post sim_api (sim_cfg\<lparr>ADMIN_2FA_PASSWORD := Some ''wrong''\<rparr>) Transfer_ownership
          transfer_post
          (sim_world [ChannelParticipantCreator 1, ChannelParticipantAdmin 3,
                      ChannelParticipant 7], [])) =
     \<lparr>status = 500, json = JObj
        [(''error'', JStr ''400: PASSWORD_HASH_INVALID''),
         (''stack'', JStr ''RPCError: 400: PASSWORD_HASH_INVALID'')]\<rparr>"
proof -
  let ?cfg = "sim_cfg\<lparr>ADMIN_2FA_PASSWORD := Some ''wrong''\<rparr>"
  let ?s0 = "(sim_world [ChannelParticipantCreator 1, ChannelParticipantAdmin 3,
                         ChannelParticipant 7], [])"
  let ?ch = "body_field transfer_request ''channelUsername''"
  let ?b = "body_field transfer_request ''buyerUsername''"
  let ?s1 = "snd (joinChannelIfNeeded sim_api ?cfg ?ch ?s0)"
  let ?s2 = "snd (checkChannelOwnership sim_api ?cfg ?ch ?s1)"
  let ?s3 = "snd (removeAllOtherAdmins sim_api ?cfg ?ch ?s2)"
  let ?s4 = "snd (transferChannelOwnership sim_api ?cfg ?ch ?b ?s3)"
  let ?oc = "\<lparr>isOwner = True, currentRole = ''creator'',
              participantType = ''VirtualClass'',
              channelId = Some ''100'', channelTitle = Some ''Shop One''\<rparr>"
  have parsed: "express_json transfer_post = Inr transfer_request"
    by (simp add: express_json_def transfer_post_def)
  have steps: "headers transfer_request ''x-api-secret'' = Some (API_SECRET ?cfg) \<and>
    truthy (body_field transfer_request ''jobId'') \<and>
    truthy (body_field transfer_request ''channelUsername'') \<and>
    truthy (body_field transfer_request ''buyerUsername'') \<and>
    joinChannelIfNeeded sim_api ?cfg ?ch ?s0 =
      (Inr \<lparr>joined = True, alreadyMember = True\<rparr>, ?s1) \<and>
    checkChannelOwnership sim_api ?cfg ?ch ?s1 = (Inr ?oc, ?s2) \<and>
    isOwner ?oc \<and>
    removeAllOtherAdmins sim_api ?cfg ?ch ?s2 = (Inr [''3''], ?s3) \<and>
    transferChannelOwnership sim_api ?cfg ?ch ?b ?s3 =
      (Inl (rpc_error ''PASSWORD_HASH_INVALID''), ?s4)"
    by code_simp
  from parsed steps have hyps: "express_json transfer_post = Inr transfer_request \<and>
    headers transfer_request ''x-api-secret'' = Some (API_SECRET ?cfg) \<and>
    truthy (body_field transfer_request ''jobId'') \<and>
    truthy (body_field transfer_request ''channelUsername'') \<and>
    truthy (body_field transfer_request ''buyerUsername'') \<and>
    joinChannelIfNeeded sim_api ?cfg ?ch ?s0 =
      (Inr \<lparr>joined = True, alreadyMember = True\<rparr>, ?s1) \<and>
    checkChannelOwnership sim_api ?cfg ?ch ?s1 = (Inr ?oc, ?s2) \<and>
    isOwner ?oc \<and>
    removeAllOtherAdmins sim_api ?cfg ?ch ?s2 = (Inr [''3''], ?s3) \<and>
    transferChannelOwnership sim_api ?cfg ?ch ?b ?s3 =
      (Inl (rpc_error ''PASSWORD_HASH_INVALID''), ?s4)"
    by (rule conjI)
  from leave_only_after_handoff [THEN conjunct1, THEN mp, OF hyps] show ?thesis
    by (simp add: rpc_error_def)
qed

subsection \<open>The answers of the transfer endpoint\<close>

text \<open>
  Claim C7. When a request has passed the body parser, the secret check and
  the validation and the five steps of its run return, the endpoint answers 200 with
  \<^verbatim>\<open>{success: true, message, jobId, transferComplete: true, steps}\<close>, where
  \<^verbatim>\<open>steps.adminsRemoved\<close> is the length of the list that the revocation
  step returned.
\<close>

theorem transfer_success_summary:
  assumes "express_json hreq = Inr req"
    and "headers req ''x-api-secret'' = Some (API_SECRET cfg)"
    and "truthy (body_field req ''jobId'')"
    and "truthy (body_field req ''channelUsername'')"
    and "truthy (body_field req ''buyerUsername'')"
    and "joinChannelIfNeeded api cfg (body_field req ''channelUsername'') s = (Inr j, s1)"
    and "checkChannelOwnership api cfg (body_field req ''channelUsername'') s1 = (Inr oc, s2)"
    and "isOwner oc"
    and "removeAllOtherAdmins api cfg (body_field req ''channelUsername'') s2 = (Inr removedAdmins, s3)"
    and "transferChannelOwnership api cfg (body_field req ''channelUsername'')
           (body_field req ''buyerUsername'') s3 = (Inr (), s4)"
    and "leaveChannel api cfg (body_field req ''channelUsername'') s4 = (Inr lv, s5)"
  shows "app_post api cfg Transfer_ownership hreq s =
     (\<lparr>status = 200, json = JObj
         [(''success'', JBool True),
          (''message'', JStr ''Ownership transferred successfully''),
          (''jobId'', body_field req ''jobId''),
          (''transferComplete'', JBool True),
          (''steps'', JObj
             [(''joined'', JBool True),
              (''adminsRemoved'', JNum (of_nat (length removedAdmins))),
              (''ownershipTransferred'', JBool True),
              (''escrowLeft'', JBool True)])]\<rparr>, s5)"
  using assms truthy_defined[of "body_field req ''jobId''"]
  by (simp add: app_post_def verifySecret_def transfer_ownership_handler_def Let_def object_def
        respond_def await_def ret_def)

text \<open>A complete run: one administrator revoked, one protected.\<close>

theorem transfer_success_summary_witness:
  "fst (app_post sim_api sim_cfg Transfer_ownership transfer_post
          (sim_world [ChannelParticipantCreator 1, ChannelParticipantAdmin 3,
                      ChannelParticipantAdmin 13, ChannelParticipant 7], [])) =
     \<lparr>status = 200, json = JObj
         [(''success'', JBool True),
          (''message'', JStr ''Ownership transferred successfully''),
          (''jobId'', JStr ''job-42''),
          (''transferComplete'', JBool True),
          (''steps'', JObj
             [(''joined'', JBool True),
              (''adminsRemoved'', JNum 1),
              (''ownershipTransferred'', JBool True),
              (''escrowLeft'', JBool True)])]\<rparr>"
proof -
  let ?s0 = "(sim_world [ChannelParticipantCreator 1, ChannelParticipantAdmin 3,
                         ChannelParticipantAdmin 13, ChannelParticipant 7], [])"
  let ?ch = "body_field transfer_request ''channelUsername''"
  let ?b = "body_field transfer_request ''buyerUsername''"
  let ?s1 = "snd (joinChannelIfNeeded sim_api sim_cfg ?ch ?s0)"
  let ?s2 = "snd (checkChannelOwnership sim_api sim_cfg ?ch ?s1)"
  let ?s3 = "snd (removeAllOtherAdmins sim_api sim_cfg ?ch ?s2)"
  let ?s4 = "snd (transferChannelOwnership sim_api sim_cfg ?ch ?b ?s3)"
  let ?s5 = "snd (leaveChannel sim_api sim_cfg ?ch ?s4)"
  let ?oc = "\<lparr>isOwner = True, currentRole = ''creator'',
              participantType = ''VirtualClass'',
              channelId = Some ''100'', channelTitle = Some ''Shop One''\<rparr>"
  have 0: "express_json transfer_post = Inr transfer_request"
    by (simp add: express_json_def transfer_post_def)
  have 1: "headers transfer_request ''x-api-secret'' = Some (API_SECRET sim_cfg)"
    by code_simp
  have 2: "truthy (body_field transfer_request ''jobId'')"
    by code_simp
  have 3: "truthy (body_field transfer_request ''channelUsername'')"
    by code_simp
  have 4: "truthy (body_field transfer_request ''buyerUsername'')"
    by code_simp
  have 5: "joinChannelIfNeeded sim_api sim_cfg ?ch ?s0 =
             (Inr \<lparr>joined = True, alreadyMember = True\<rparr>, ?s1)"
    by code_simp
  have 6: "checkChannelOwnership sim_api sim_cfg ?ch ?s1 = (Inr ?oc, ?s2)"
    by code_simp
  have 7: "isOwner ?oc"
    by simp
  have 8: "removeAllOtherAdmins sim_api sim_cfg ?ch ?s2 = (Inr [''3''], ?s3)"
    by code_simp
  have 9: "transferChannelOwnership sim_api sim_cfg ?ch ?b ?s3 = (Inr (), ?s4)"
    by code_simp
  have 10: "leaveChannel sim_api sim_cfg ?ch ?s4 = (Inr \<lparr>left = True\<rparr>, ?s5)"
    by code_simp
  have f: "body_field transfer_request ''jobId'' = JStr ''job-42''"
    by (simp add: body_field_def transfer_request_def)
  from transfer_success_summary [OF 0 1 2 3 4 5 6 7 8 9 10] show ?thesis
    by (simp add: f)
qed

text \<open>
  Claim C8, as amended. For a POST whose payload the body parser accepts: on
  each of the three routes a \<^verbatim>\<open>x-api-secret\<close> header that is not the
  configured secret is answered 401 \<^verbatim>\<open>{error: "Unauthorized"}\<close>, and a
  transfer request with the right secret but without \<^verbatim>\<open>jobId\<close>,
  \<^verbatim>\<open>channelUsername\<close> or \<^verbatim>\<open>buyerUsername\<close> is answered 400 (as the
  handler answers any request without one of them). A POST whose payload the
  parser rejects is answered 500 by the error middleware, whatever its secret.
  In every case the state is returned as it was: no remote call has been made.
\<close>

theorem validation_and_auth_short_circuit:
  "(body req ''jobId'' = None \<or> body req ''channelUsername'' = None \<or>
    body req ''buyerUsername'' = None \<longrightarrow>
      transfer_ownership_handler api cfg req s =
        (\<lparr>status = 400, json = JObj [(''error'',
            JStr ''jobId, channelUsername, and buyerUsername are required'')]\<rparr>, s)
      \<and> (express_json hreq = Inr req \<and>
           headers req ''x-api-secret'' = Some (API_SECRET cfg) \<longrightarrow>
           app_post api cfg Transfer_ownership hreq s =
             (\<lparr>status = 400, json = JObj [(''error'',
                 JStr ''jobId, channelUsername, and buyerUsername are required'')]\<rparr>, s)))
   \<and> (express_json hreq = Inr req \<and>
       headers req ''x-api-secret'' \<noteq> Some (API_SECRET cfg) \<longrightarrow>
        app_post api cfg route hreq s =
          (\<lparr>status = 401, json = JObj [(''error'', JStr ''Unauthorized'')]\<rparr>, s))
   \<and> (express_json hreq = Inl err \<longrightarrow>
        app_post api cfg route hreq s =
          (\<lparr>status = 500, json = JObj [(''error'', JStr ''Internal server error''),
                                       (''message'', JStr (message err))]\<rparr>, s))"
proof (intro conjI impI; (elim conjE)?)
  assume "body req ''jobId'' = None \<or> body req ''channelUsername'' = None \<or>
    body req ''buyerUsername'' = None"
  then have "\<not> truthy (body_field req ''jobId'') \<or> \<not> truthy (body_field req ''channelUsername'')
     \<or> \<not> truthy (body_field req ''buyerUsername'')"
    by (auto simp: body_field_def)
  then show h: "transfer_ownership_handler api cfg req s =
        (\<lparr>status = 400, json = JObj [(''error'',
            JStr ''jobId, channelUsername, and buyerUsername are required'')]\<rparr>, s)"
    by (auto simp: transfer_ownership_handler_def Let_def object_def)
  assume "express_json hreq = Inr req"
    and "headers req ''x-api-secret'' = Some (API_SECRET cfg)"
  with h show "app_post api cfg Transfer_ownership hreq s =
        (\<lparr>status = 400, json = JObj [(''error'',
            JStr ''jobId, channelUsername, and buyerUsername are required'')]\<rparr>, s)"
    by (simp add: app_post_def verifySecret_def)
next
  assume "express_json hreq = Inr req"
    and "headers req ''x-api-secret'' \<noteq> Some (API_SECRET cfg)"
  then show "app_post api cfg route hreq s =
          (\<lparr>status = 401, json = JObj [(''error'', JStr ''Unauthorized'')]\<rparr>, s)"
    by (simp add: app_post_def verifySecret_def object_def)
next
  assume "express_json hreq = Inl err"
  then show "app_post api cfg route hreq s =
          (\<lparr>status = 500, json = JObj [(''error'', JStr ''Internal server error''),
                                       (''message'', JStr (message err))]\<rparr>, s)"
    by (simp add: app_post_def error_middleware_def object_def)
qed

text \<open>A request without a buyer, and a request with a guessed secret.\<close>

theorem validation_and_auth_short_circuit_witness:
  "app_post sim_api sim_cfg Transfer_ownership
     \<lparr>http_headers = [''x-api-secret'' \<mapsto> ''s3cret''],
      http_json = Inr [''jobId'' \<mapsto> JStr ''job-42'', ''channelUsername'' \<mapsto> JStr ''@shop1'']\<rparr>
     (sim_world [ChannelParticipantCreator 1], []) =
       (\<lparr>status = 400, json = JObj [(''error'',
           JStr ''jobId, channelUsername, and buyerUsername are required'')]\<rparr>,
        sim_world [ChannelParticipantCreator 1], [])
   \<and> app_post sim_api sim_cfg Transfer_ownership
        (transfer_post\<lparr>http_headers := [''x-api-secret'' \<mapsto> ''guess'']\<rparr>)
        (sim_world [ChannelParticipantCreator 1], []) =
       (\<lparr>status = 401, json = JObj [(''error'', JStr ''Unauthorized'')]\<rparr>,
        sim_world [ChannelParticipantCreator 1], [])"
proof -
  let ?s = "(sim_world [ChannelParticipantCreator 1], [])"
  let ?short = "\<lparr>http_headers = [''x-api-secret'' \<mapsto> ''s3cret''],
      http_json = Inr [''jobId'' \<mapsto> JStr ''job-42'', ''channelUsername'' \<mapsto> JStr ''@shop1'']\<rparr>"
  let ?short_req = "\<lparr>headers = [''x-api-secret'' \<mapsto> ''s3cret''],
      body = [''jobId'' \<mapsto> JStr ''job-42'', ''channelUsername'' \<mapsto> JStr ''@shop1'']\<rparr>"
  let ?guess = "transfer_post\<lparr>http_headers := [''x-api-secret'' \<mapsto> ''guess'']\<rparr>"
  let ?guess_req = "transfer_request\<lparr>headers := [''x-api-secret'' \<mapsto> ''guess'']\<rparr>"
  have a: "body ?short_req ''jobId'' = None \<or> body ?short_req ''channelUsername'' = None \<or>
      body ?short_req ''buyerUsername'' = None"
    by simp
  have b: "express_json ?short = Inr ?short_req \<and>
      headers ?short_req ''x-api-secret'' = Some (API_SECRET sim_cfg)"
    by (simp add: express_json_def API_SECRET_def sim_cfg_def)
  have c: "express_json ?guess = Inr ?guess_req \<and>
      headers ?guess_req ''x-api-secret'' \<noteq> Some (API_SECRET sim_cfg)"
    by (simp add: express_json_def transfer_post_def API_SECRET_def sim_cfg_def)
  from validation_and_auth_short_circuit [of ?short_req sim_api sim_cfg ?s ?short,
      THEN conjunct1, THEN mp, OF a, THEN conjunct2, THEN mp, OF b]
  have 1: "app_post sim_api sim_cfg Transfer_ownership ?short ?s =
       (\<lparr>status = 400, json = JObj [(''error'',
           JStr ''jobId, channelUsername, and buyerUsername are required'')]\<rparr>, ?s)" .
  from validation_and_auth_short_circuit [of ?guess_req sim_api sim_cfg ?s ?guess
      Transfer_ownership, THEN conjunct2, THEN conjunct1, THEN mp, OF c]
  have 2: "app_post sim_api sim_cfg Transfer_ownership ?guess ?s =
       (\<lparr>status = 401, json = JObj [(''error'', JStr ''Unauthorized'')]\<rparr>, ?s)" .
  from 1 2 show ?thesis by (rule conjI)
qed

text \<open>
  Claim C8 as written fails on a POST with a guessed secret and a payload that
  is not JSON: the parser runs before \<^verbatim>\<open>verifySecret\<close>, and the answer
  is the 500 of the error middleware, not 401.
\<close>

theorem auth_after_parser_counterexample:
  "http_headers malformed_post ''x-api-secret'' \<noteq> Some (API_SECRET sim_cfg)
   \<and> app_post sim_api sim_cfg Transfer_ownership malformed_post
        (sim_world [ChannelParticipantCreator 1], []) =
       (\<lparr>status = 500, json = JObj
           [(''error'', JStr ''Internal server error''),
            (''message'', JStr ''Unexpected token j in JSON at position 1'')]\<rparr>,
        sim_world [ChannelParticipantCreator 1], [])
   \<and> status (fst (app_post sim_api sim_cfg Transfer_ownership malformed_post
        (sim_world [ChannelParticipantCreator 1], []))) \<noteq> 401"
  by (simp add: app_post_def express_json_def malformed_post_def error_middleware_def
        object_def API_SECRET_def sim_cfg_def)

subsection \<open>The three-step variant and the ledger\<close>

text \<open>
  Claim C10. In the handler of \<^verbatim>\<open>index.js\<close>, once the check has returned
  with \<open>isOwner\<close> true and the handoff has returned, the answer is 200 with
  \<^verbatim>\<open>{success: true, message, jobId}\<close> whatever the ledger does, in
  particular whatever \<open>updateError\<close> the update of the job row resolves to.
\<close>

theorem ledger_failure_ignored:
  assumes "truthy (body_field req ''jobId'')"
    and "truthy (body_field req ''channelUsername'')"
    and "truthy (body_field req ''buyerUsername'')"
    and "checkChannelOwnership api cfg (body_field req ''channelUsername'') s = (Inr oc, s1)"
    and "isOwner oc"
    and "transferChannelOwnership api cfg (body_field req ''channelUsername'')
           (body_field req ''buyerUsername'') s1 = (Inr (), s2)"
    and "ledger_update_job supabase (body_field req ''jobId'') (ledger_now supabase (fst s2)) (fst s2)
           = (updateError, w3)"
  shows "fst (transfer_ownership_handler_v1 api supabase cfg req s) =
     \<lparr>status = 200, json = JObj
         [(''success'', JBool True),
          (''message'', JStr ''Ownership transferred successfully''),
          (''jobId'', body_field req ''jobId'')]\<rparr>"
  using assms truthy_defined[of "body_field req ''jobId''"]
  by (simp add: transfer_ownership_handler_v1_def Let_def object_def
        respond_def await_def ret_def query_def split: prod.splits option.splits)

text \<open>The ledger is down: the update of the job resolves to an error.\<close>

theorem ledger_failure_ignored_witness:
  "fst (ledger_update_job sim_ledger (JStr ''job-42'') ''2024-01-01T00:00:00.000Z''
          (sim_world [ChannelParticipantAdmin 1, ChannelParticipantCreator 7])) = Some ''fetch failed''
   \<and> fst (transfer_ownership_handler_v1 sim_api sim_ledger sim_cfg transfer_request
          (sim_world [ChannelParticipantCreator 1, ChannelParticipant 7], [])) =
     \<lparr>status = 200, json = JObj
         [(''success'', JBool True),
          (''message'', JStr ''Ownership transferred successfully''),
          (''jobId'', JStr ''job-42'')]\<rparr>"
proof -
  let ?s0 = "(sim_world [ChannelParticipantCreator 1, ChannelParticipant 7], [])"
  let ?ch = "body_field transfer_request ''channelUsername''"
  let ?b = "body_field transfer_request ''buyerUsername''"
  let ?s1 = "snd (checkChannelOwnership sim_api sim_cfg ?ch ?s0)"
  let ?s2 = "snd (transferChannelOwnership sim_api sim_cfg ?ch ?b ?s1)"
  let ?oc = "\<lparr>isOwner = True, currentRole = ''creator'',
              participantType = ''VirtualClass'',
              channelId = Some ''100'', channelTitle = Some ''Shop One''\<rparr>"
  let ?w2 = "sim_world [ChannelParticipantAdmin 1, ChannelParticipantCreator 7]"
  have 2: "truthy (body_field transfer_request ''jobId'')"
    by code_simp
  have 3: "truthy (body_field transfer_request ''channelUsername'')"
    by code_simp
  have 4: "truthy (body_field transfer_request ''buyerUsername'')"
    by code_simp
  have 5: "checkChannelOwnership sim_api sim_cfg ?ch ?s0 = (Inr ?oc, ?s1)"
    by code_simp
  have 6: "isOwner ?oc"
    by simp
  have 7: "transferChannelOwnership sim_api sim_cfg ?ch ?b ?s1 = (Inr (), ?s2)"
    by code_simp
  have w2: "fst ?s2 = ?w2"
    by code_simp
  have 8: "ledger_update_job sim_ledger (body_field transfer_request ''jobId'')
             (ledger_now sim_ledger (fst ?s2)) (fst ?s2) = (Some ''fetch failed'', ?w2)"
    unfolding w2 by code_simp
  have f: "body_field transfer_request ''jobId'' = JStr ''job-42''"
    by (simp add: body_field_def transfer_request_def)
  have l: "fst (ledger_update_job sim_ledger (JStr ''job-42'') ''2024-01-01T00:00:00.000Z''
          ?w2) = Some ''fetch failed''"
    by (simp add: sim_ledger_def sim_world_def)
  from ledger_failure_ignored [OF 2 3 4 5 6 7 8] l show ?thesis
    by (simp add: f)
qed

end
